theory Spec2Isabelle
  imports Main
begin

section \<open>Gateway lock: single-instance coordination through a lock file\<close>

text \<open>
  A shallow embedding of the gateway lock of \<^verbatim>\<open>src/src/agents/identity-file.ts\<close>
  (lines 391 to 708): the liveness probe \<^verbatim>\<open>resolveGatewayOwnerStatus\<close>, the payload
  reader \<^verbatim>\<open>readLockPayload\<close>, \<^verbatim>\<open>acquireGatewayLock\<close> with the \<^verbatim>\<open>release\<close>
  closure of its handle, and \<^verbatim>\<open>tryStopForegroundGateway\<close>.

  Conventions. A JavaScript number is an \<open>int\<close> (process ids, millisecond timestamps and
  start-time counters are integers; \<open>NaN\<close> is \<open>None\<close> where a parse can produce it).
  A string is a \<open>string\<close> of 8-bit characters. Promises are run to completion in program
  order, a rejected promise or a \<^verbatim>\<open>throw\<close> is the \<open>Inl\<close> of a sum.
\<close>

subsection \<open>Strings\<close>

definition is_space :: "char \<Rightarrow> bool" where
  \<comment> \<open>the ASCII part of the white space of \<^verbatim>\<open>trim\<close>, \<^verbatim>\<open>\s\<close> and \<^verbatim>\<open>parseInt\<close>\<close>
  "is_space c = (c \<in> set [CHR 0x09, CHR 0x0A, CHR 0x0B, CHR 0x0C, CHR 0x0D, CHR 0x20])"

definition is_digit :: "char \<Rightarrow> bool" where
  "is_digit c = (48 \<le> (of_char c :: nat) \<and> (of_char c :: nat) \<le> 57)"

definition trim :: "string \<Rightarrow> string" where
  "trim s = rev (dropWhile is_space (rev (dropWhile is_space s)))"

definition endsWith :: "string \<Rightarrow> string \<Rightarrow> bool" where
  "endsWith s e = (length e \<le> length s \<and> drop (length s - length e) s = e)"

definition toLowerCase_char :: "char \<Rightarrow> char" where
  \<comment> \<open>ASCII letters only\<close>
  "toLowerCase_char c =
     (case map_of (zip ''ABCDEFGHIJKLMNOPQRSTUVWXYZ'' ''abcdefghijklmnopqrstuvwxyz'') c of
        Some l \<Rightarrow> l
      | None \<Rightarrow> c)"

definition toLowerCase :: "string \<Rightarrow> string" where
  "toLowerCase s = map toLowerCase_char s"

fun split_char :: "char \<Rightarrow> string \<Rightarrow> string list" where
  \<comment> \<open>\<^verbatim>\<open>s.split(c)\<close> for a one-character separator\<close>
  "split_char c [] = [[]]"
| "split_char c (x # xs) =
     (if x = c then [] # split_char c xs
      else (let r = split_char c xs in (x # hd r) # tl r))"

function split_spaces :: "string \<Rightarrow> string list" where
  \<comment> \<open>\<^verbatim>\<open>s.split(/\s+/)\<close>: cut at every maximal run of white space\<close>
  "split_spaces [] = [[]]"
| "split_spaces (x # xs) =
     (if is_space x then [] # split_spaces (dropWhile is_space xs)
      else (let r = split_spaces xs in (x # hd r) # tl r))"
  by pat_completeness auto
termination
  by (relation "measure length") (auto simp: less_Suc_eq_le length_dropWhile_le)

definition lastIndexOf :: "string \<Rightarrow> char \<Rightarrow> int" where
  "lastIndexOf s c =
     (case filter (\<lambda>i. s ! i = c) (rev [0..<length s]) of
        [] \<Rightarrow> -1
      | i # _ \<Rightarrow> int i)"

definition digits_value :: "string \<Rightarrow> int" where
  "digits_value ds = foldl (\<lambda>acc c. 10 * acc + (int (of_char c) - 48)) 0 ds"

definition parseInt10 :: "string \<Rightarrow> int option" where
  \<comment> \<open>\<^verbatim>\<open>Number.parseInt(s, 10)\<close>; \<open>None\<close> is \<open>NaN\<close>\<close>
  "parseInt10 s =
     (let s1 = dropWhile is_space s;
          neg = (case s1 of [] \<Rightarrow> False | c # _ \<Rightarrow> c = CHR ''-'');
          s2 = (case s1 of [] \<Rightarrow> [] | c # r \<Rightarrow> if c = CHR ''-'' \<or> c = CHR ''+'' then r else s1);
          ds = takeWhile is_digit s2
      in if ds = [] then None
         else Some (if neg then - digits_value ds else digits_value ds))"

subsection \<open>Data model\<close>

text \<open>
  A parsed JSON value. An object is the list of its properties, each key once.
\<close>

datatype json =
  JNull | JBool bool | JNum int | JStr string | JArr "json list" | JObj "(string \<times> json) list"

definition js_prop :: "json \<Rightarrow> string \<Rightarrow> json option" where
  \<comment> \<open>\<^verbatim>\<open>value.key\<close> on a value that is not \<^verbatim>\<open>null\<close>; \<open>None\<close> is \<^verbatim>\<open>undefined\<close>\<close>
  "js_prop j k = (case j of JObj kvs \<Rightarrow> map_of kvs k | _ \<Rightarrow> None)"

fun typeof_number :: "json option \<Rightarrow> int option" where
  \<comment> \<open>the number when \<^verbatim>\<open>typeof v === "number"\<close>\<close>
  "typeof_number (Some (JNum n)) = Some n"
| "typeof_number _ = None"

fun typeof_string :: "json option \<Rightarrow> string option" where
  "typeof_string (Some (JStr s)) = Some s"
| "typeof_string _ = None"

record LockPayload =
  pid :: int
  createdAt :: string
  configPath :: string
  startTime :: "int option"

record GatewayLockHandle =
  lockPath :: string
  lockConfigPath :: string
  fileHandle :: nat

record GatewayLockOptions =
  env :: "(string \<rightharpoonup> string) option"
  timeoutMs :: "int option"
  pollIntervalMs :: "int option"
  staleMs :: "int option"
  allowInTests :: bool
  platform :: "string option"

datatype io_fault = EACCES | EPERM | EISDIR | EMFILE | ENOSPC | EROFS | EIO

datatype errno = EEXIST | ENOENT | ESRCH | Io io_fault

record GatewayLockError =
  name :: string
  message :: string
  cause :: "errno option"

definition new_GatewayLockError :: "string \<Rightarrow> errno option \<Rightarrow> GatewayLockError" where
  "new_GatewayLockError msg c = \<lparr>name = ''GatewayLockError'', message = msg, cause = c\<rparr>"

datatype LockOwnerStatus = Alive | Dead | Unknown

datatype ForegroundStopResult = Stopped | NotRunning | NoLock

definition DEFAULT_TIMEOUT_MS :: int where "DEFAULT_TIMEOUT_MS = 5000"
definition DEFAULT_POLL_INTERVAL_MS :: int where "DEFAULT_POLL_INTERVAL_MS = 100"
definition DEFAULT_STALE_MS :: int where "DEFAULT_STALE_MS = 30000"

subsection \<open>The operating system\<close>

text \<open>
  The code talks to the file system, the process table and the clock. They are one
  explicit state, changed only by the calls of the code: the model runs one process at
  a time. A file's text is held as what \<^verbatim>\<open>JSON.parse\<close> makes of it (\<open>None\<close> when it
  throws). A process carries the text of its \<^verbatim>\<open>/proc\<close> entries, how long it takes to
  exit after the graceful signal (\<open>None\<close>: it ignores the signal), and the time of its
  exit once that is settled.

  Every call of the file system can fail. Besides the failures the state itself decides
  (\<open>EEXIST\<close> for a path that exists, \<open>ENOENT\<close> for one that does not), the world
  carries, for each kind of call, the fault with which that call is rejected
  (\<open>None\<close>: it is not): the creation, the write to the new handle, the \<^verbatim>\<open>mkdir\<close> of
  the lock directory, the \<^verbatim>\<open>stat\<close> and the removal of a path that exists, and the
  close of an open handle.
\<close>

datatype signal = SIGTERM | SIGKILL

record proc =
  stat :: "string option"
  cmdline :: "string option"
  term_grace :: "int option"
  exit_at :: "int option"

record lock_file =
  parsed :: "json option"
  mtimeMs :: int
  readable :: bool

record world =
  clock :: int
  files :: "string \<rightharpoonup> lock_file"
  procs :: "int \<rightharpoonup> proc"
  signals :: "(int \<times> signal) list"
  open_fault :: "io_fault option"
  write_fault :: "io_fault option"
  mkdir_fault :: "io_fault option"
  stat_fault :: "io_fault option"
  rm_fault :: "io_fault option"
  close_fault :: "io_fault option"
  open_fds :: "nat list"
  next_fd :: nat
  process_pid :: int
  process_platform :: string
  process_env :: "string \<rightharpoonup> string"

text \<open>
  Functions of the JavaScript runtime and of modules that are not part of the lock
  (\<^verbatim>\<open>Date.parse\<close>, \<^verbatim>\<open>Date.prototype.toISOString\<close>, and the path resolution of
  \<^verbatim>\<open>../config/paths.js\<close> with the SHA-1 digest inside \<^verbatim>\<open>resolveGatewayLockPath\<close>) are
  parameters.
\<close>

record runtime =
  Date_parse :: "string \<Rightarrow> int option"
  toISOString :: "int \<Rightarrow> string"
  resolveGatewayLockPath :: "(string \<rightharpoonup> string) \<Rightarrow> string \<times> string"

definition Date_now :: "world \<Rightarrow> int" where
  "Date_now w = clock w"

definition sleep :: "int \<Rightarrow> world \<Rightarrow> world" where
  \<comment> \<open>\<^verbatim>\<open>await new Promise((r) => setTimeout(r, ms))\<close>; Node runs a delay below 1 or above
      \<open>2\<^sup>3\<^sup>1 - 1\<close> as 1\<close>
  "sleep ms w = w\<lparr>clock := clock w + (if ms < 1 \<or> 2147483647 < ms then 1 else ms)\<rparr>"

definition fs_open_wx :: "world \<Rightarrow> string \<Rightarrow> errno + (nat \<times> world)" where
  \<comment> \<open>\<^verbatim>\<open>fs.open(path, "wx")\<close>: create exclusively, fail with \<open>EEXIST\<close> when the path exists\<close>
  "fs_open_wx w path =
     (if files w path \<noteq> None then Inl EEXIST
      else case open_fault w of
             Some e \<Rightarrow> Inl (Io e)
           | None \<Rightarrow>
               Inr (next_fd w,
                    w\<lparr>files := (files w)(path \<mapsto> \<lparr>parsed = None, mtimeMs = clock w, readable = True\<rparr>),
                      open_fds := next_fd w # open_fds w,
                      next_fd := Suc (next_fd w)\<rparr>))"

definition handle_writeFile :: "world \<Rightarrow> string \<Rightarrow> json \<Rightarrow> errno + world" where
  \<comment> \<open>\<^verbatim>\<open>handle.writeFile(JSON.stringify(v), "utf8")\<close> on the handle of \<open>path\<close>\<close>
  "handle_writeFile w path v =
     (case write_fault w of
        Some e \<Rightarrow> Inl (Io e)
      | None \<Rightarrow>
          Inr (w\<lparr>files := (files w)(path \<mapsto> \<lparr>parsed = Some v, mtimeMs = clock w,
                                                readable = True\<rparr>)\<rparr>))"

definition handle_close :: "world \<Rightarrow> nat \<Rightarrow> errno option \<times> world" where
  \<comment> \<open>\<^verbatim>\<open>handle.close()\<close>: the descriptor is given back also when the close is rejected;
      closing a handle that is closed already resolves\<close>
  "handle_close w fd =
     (if fd \<in> set (open_fds w)
      then (map_option Io (close_fault w), w\<lparr>open_fds := removeAll fd (open_fds w)\<rparr>)
      else (None, w))"

definition fs_mkdir_recursive :: "world \<Rightarrow> errno + world" where
  \<comment> \<open>\<^verbatim>\<open>fs.mkdir(path.dirname(lockPath), {recursive: true})\<close>: no error when the directory
      exists; the state holds the files of the lock directory only\<close>
  "fs_mkdir_recursive w = (case mkdir_fault w of Some e \<Rightarrow> Inl (Io e) | None \<Rightarrow> Inr w)"

definition fs_readFile :: "world \<Rightarrow> string \<Rightarrow> errno + json option" where
  "fs_readFile w path =
     (case files w path of
        None \<Rightarrow> Inl ENOENT
      | Some f \<Rightarrow> if readable f then Inr (parsed f) else Inl (Io EACCES))"

definition fs_stat :: "world \<Rightarrow> string \<Rightarrow> errno + int" where
  \<comment> \<open>\<^verbatim>\<open>(await fs.stat(path)).mtimeMs\<close>\<close>
  "fs_stat w path =
     (case files w path of
        None \<Rightarrow> Inl ENOENT
      | Some f \<Rightarrow> (case stat_fault w of Some e \<Rightarrow> Inl (Io e) | None \<Rightarrow> Inr (mtimeMs f)))"

definition fs_rm :: "world \<Rightarrow> string \<Rightarrow> bool \<Rightarrow> errno + world" where
  \<comment> \<open>\<^verbatim>\<open>fs.rm(path, {force})\<close>: \<^verbatim>\<open>force\<close> turns an absent path into success and nothing
      else\<close>
  "fs_rm w path force =
     (case files w path of
        None \<Rightarrow> if force then Inr w else Inl ENOENT
      | Some f \<Rightarrow>
          (case rm_fault w of
             Some e \<Rightarrow> Inl (Io e)
           | None \<Rightarrow> Inr (w\<lparr>files := (files w)(path := None)\<rparr>)))"

definition isPidAlive :: "world \<Rightarrow> int \<Rightarrow> bool" where
  \<comment> \<open>Modelled from the spec: \<^verbatim>\<open>../shared/pid-alive.js\<close> is not among the sources. Section 2
      of the spec: the prober, given a process id, reports whether a process with that id
      currently exists.\<close>
  "isPidAlive w p =
     (case procs w p of
        None \<Rightarrow> False
      | Some pr \<Rightarrow> (case exit_at pr of None \<Rightarrow> True | Some t \<Rightarrow> clock w < t))"

definition process_kill :: "world \<Rightarrow> int \<Rightarrow> signal \<Rightarrow> errno + world" where
  \<comment> \<open>\<^verbatim>\<open>process.kill(pid, signal)\<close>: throws when no such process exists. The forceful
      signal ends the process at once, the graceful one after the process's own delay.\<close>
  "process_kill w p sg =
     (case procs w p of
        None \<Rightarrow> Inl ESRCH
      | Some pr \<Rightarrow>
          if \<not> isPidAlive w p then Inl ESRCH
          else
            (let due = (case sg of
                          SIGKILL \<Rightarrow> Some (clock w)
                        | SIGTERM \<Rightarrow> map_option (\<lambda>d. clock w + d) (term_grace pr));
                 ex = (case (exit_at pr, due) of
                         (Some t, Some u) \<Rightarrow> Some (min t u)
                       | (Some t, None) \<Rightarrow> Some t
                       | (None, u) \<Rightarrow> u)
             in Inr (w\<lparr>procs := (procs w)(p \<mapsto> pr\<lparr>exit_at := ex\<rparr>),
                       signals := signals w @ [(p, sg)]\<rparr>)))"

definition proc_entry :: "world \<Rightarrow> int \<Rightarrow> (proc \<Rightarrow> string option) \<Rightarrow> string option" where
  \<comment> \<open>\<^verbatim>\<open>fsSync.readFileSync("/proc/<pid>/...", "utf8")\<close>; \<open>None\<close> when it throws\<close>
  "proc_entry w p sel =
     (case procs w p of
        None \<Rightarrow> None
      | Some pr \<Rightarrow> if isPidAlive w p then sel pr else None)"

subsection \<open>The liveness probe\<close>

definition normalizeProcArg :: "string \<Rightarrow> string" where
  "normalizeProcArg arg = toLowerCase (map (\<lambda>c. if c = CHR 0x5C then CHR ''/'' else c) arg)"

definition parseProcCmdline :: "string \<Rightarrow> string list" where
  "parseProcCmdline raw = filter (\<lambda>entry. entry \<noteq> []) (map trim (split_char (CHR 0x00) raw))"

definition entryCandidates :: "string list" where
  "entryCandidates =
     [''dist/index.js'', ''dist/entry.js'', ''openclaw.mjs'', ''scripts/run-node.mjs'',
      ''src/index.ts'']"

definition isGatewayArgv :: "string list \<Rightarrow> bool" where
  "isGatewayArgv args =
     (let normalized = map normalizeProcArg args
      in if ''gateway'' \<notin> set normalized then False
         else if list_ex (\<lambda>arg. list_ex (\<lambda>entry. endsWith arg entry) entryCandidates) normalized
         then True
         else (let exe = (case normalized of [] \<Rightarrow> [] | e # _ \<Rightarrow> e)
               in endsWith exe ''/openclaw'' \<or> exe = ''openclaw''))"

definition readLinuxCmdline :: "world \<Rightarrow> int \<Rightarrow> string list option" where
  "readLinuxCmdline w p = map_option parseProcCmdline (proc_entry w p cmdline)"

definition readLinuxStartTime :: "world \<Rightarrow> int \<Rightarrow> int option" where
  "readLinuxStartTime w p =
     (case proc_entry w p stat of
        None \<Rightarrow> None
      | Some txt \<Rightarrow>
          (let raw = trim txt;
               closeParen = lastIndexOf raw (CHR '')'')
           in if closeParen < 0 then None
              else (let rest = trim (drop (nat (closeParen + 1)) raw);
                        fields = split_spaces rest
                    in parseInt10 (if 19 < length fields then fields ! 19 else []))))"

definition resolveGatewayOwnerStatus ::
  "world \<Rightarrow> int \<Rightarrow> LockPayload option \<Rightarrow> string \<Rightarrow> LockOwnerStatus" where
  "resolveGatewayOwnerStatus w p payload plat =
     (if \<not> isPidAlive w p then Dead
      else if plat \<noteq> ''linux'' then Alive
      else
        (case (case payload of None \<Rightarrow> None | Some pl \<Rightarrow> startTime pl) of
           Some payloadStartTime \<Rightarrow>
             (case readLinuxStartTime w p of
                None \<Rightarrow> Unknown
              | Some currentStartTime \<Rightarrow>
                  if currentStartTime = payloadStartTime then Alive else Dead)
         | None \<Rightarrow>
             (case readLinuxCmdline w p of
                None \<Rightarrow> Unknown
              | Some args \<Rightarrow> if isGatewayArgv args then Alive else Dead)))"

definition readLockPayload :: "world \<Rightarrow> string \<Rightarrow> LockPayload option" where
  \<comment> \<open>every exception inside (a failed read, a \<^verbatim>\<open>SyntaxError\<close> of \<^verbatim>\<open>JSON.parse\<close>, the
      \<^verbatim>\<open>TypeError\<close> of a property read on \<^verbatim>\<open>null\<close>) is caught and gives \<^verbatim>\<open>null\<close>\<close>
  "readLockPayload w path =
     (case fs_readFile w path of
        Inl e \<Rightarrow> None
      | Inr raw \<Rightarrow>
          (case raw of
             None \<Rightarrow> None
           | Some j \<Rightarrow>
               if j = JNull then None
               else
                 (case typeof_number (js_prop j ''pid'') of
                    None \<Rightarrow> None
                  | Some n \<Rightarrow>
                      (case typeof_string (js_prop j ''createdAt'') of
                         None \<Rightarrow> None
                       | Some c \<Rightarrow>
                           (case typeof_string (js_prop j ''configPath'') of
                              None \<Rightarrow> None
                            | Some cp \<Rightarrow>
                                Some \<lparr>pid = n, createdAt = c, configPath = cp,
                                      startTime = typeof_number (js_prop j ''startTime'')\<rparr>)))))"

subsection \<open>Acquiring the lock\<close>

text \<open>
  The constants that \<^verbatim>\<open>acquireGatewayLock\<close> fixes before its loop: the resolved paths,
  the three durations and the platform.
\<close>

record lock_settings =
  lock_file_path :: string
  config_path :: string
  timeout :: int
  pollInterval :: int
  staleThreshold :: int
  plat :: string

datatype thrown = Lock_error GatewayLockError | Fs_error errno

text \<open>What one pass through the loop body does: return, throw, or go round again.\<close>

datatype attempt = Acquired GatewayLockHandle | Threw thrown | Retry "LockPayload option"

function show_nat :: "nat \<Rightarrow> string" where
  "show_nat n = (if n < 10 then [''0123456789'' ! n] else show_nat (n div 10) @ [''0123456789'' ! (n mod 10)])"
  by pat_completeness auto
termination
  by (relation "measure id") auto

definition show_int :: "int \<Rightarrow> string" where
  \<comment> \<open>an integer inside a template literal\<close>
  "show_int i = (if i < 0 then CHR ''-'' # show_nat (nat (- i)) else show_nat (nat i))"

definition own_payload :: "runtime \<Rightarrow> lock_settings \<Rightarrow> world \<Rightarrow> json" where
  \<comment> \<open>lines 579 to 587: the payload of the new owner, as \<^verbatim>\<open>JSON.stringify\<close> sees it\<close>
  "own_payload rt c w =
     (let startTime = (if plat c = ''linux'' then readLinuxStartTime w (process_pid w) else None)
      in JObj ([(''pid'', JNum (process_pid w)),
                (''createdAt'', JStr (toISOString rt (Date_now w))),
                (''configPath'', JStr (config_path c))]
               @ (case startTime of None \<Rightarrow> [] | Some st \<Rightarrow> [(''startTime'', JNum st)])))"

definition lock_owner_status :: "world \<Rightarrow> LockPayload option \<Rightarrow> string \<Rightarrow> LockOwnerStatus" where
  \<comment> \<open>lines 604 to 607; a number is truthy when it is not 0\<close>
  "lock_owner_status w lastPayload pf =
     (case lastPayload of
        None \<Rightarrow> Unknown
      | Some pl \<Rightarrow>
          if pid pl \<noteq> 0 then resolveGatewayOwnerStatus w (pid pl) lastPayload pf else Unknown)"

definition createdAt_stale :: "runtime \<Rightarrow> world \<Rightarrow> LockPayload option \<Rightarrow> int \<Rightarrow> bool" where
  \<comment> \<open>lines 613 to 617; a string is truthy when it is not empty\<close>
  "createdAt_stale rt w lastPayload stale_ms =
     (case lastPayload of
        None \<Rightarrow> False
      | Some pl \<Rightarrow>
          if createdAt pl \<noteq> [] then
            (case Date_parse rt (createdAt pl) of
               Some t \<Rightarrow> Date_now w - t > stale_ms
             | None \<Rightarrow> False)
          else False)"

definition lock_stale :: "runtime \<Rightarrow> world \<Rightarrow> string \<Rightarrow> LockPayload option \<Rightarrow> int \<Rightarrow> bool" where
  \<comment> \<open>lines 613 to 625: the value of \<^verbatim>\<open>stale\<close> at line 626\<close>
  "lock_stale rt w path lastPayload stale_ms =
     (let stale = createdAt_stale rt w lastPayload stale_ms
      in if \<not> stale then
           (case fs_stat w path of
              Inr mtime \<Rightarrow> Date_now w - mtime > stale_ms
            | Inl e \<Rightarrow> True)
         else stale)"

definition on_contention ::
  "runtime \<Rightarrow> lock_settings \<Rightarrow> LockPayload option \<Rightarrow> LockOwnerStatus \<Rightarrow> world \<Rightarrow> errno + world" where
  \<comment> \<open>lines 608 to 632: what follows the probe. \<open>Inr\<close> is the world in which the loop goes
      round again, \<open>Inl\<close> an exception of the removal.\<close>
  "on_contention rt c lastPayload ownerStatus w =
     (if ownerStatus = Dead \<and> (case lastPayload of None \<Rightarrow> False | Some pl \<Rightarrow> pid pl \<noteq> 0)
      then fs_rm w (lock_file_path c) True
      else if ownerStatus \<noteq> Alive \<and> lock_stale rt w (lock_file_path c) lastPayload (staleThreshold c)
      then fs_rm w (lock_file_path c) True
      else Inr (sleep (pollInterval c) w))"

definition acquire_catch :: "runtime \<Rightarrow> lock_settings \<Rightarrow> errno \<Rightarrow> world \<Rightarrow> attempt \<times> world" where
  \<comment> \<open>lines 597 to 633: the \<^verbatim>\<open>catch\<close> block, entered with the code of the error\<close>
  "acquire_catch rt c code w =
     (if code \<noteq> EEXIST then
        (Threw (Lock_error (new_GatewayLockError
                  (''failed to acquire gateway lock at '' @ lock_file_path c) (Some code))), w)
      else
        (let lastPayload = readLockPayload w (lock_file_path c);
             ownerStatus = lock_owner_status w lastPayload (plat c)
         in case on_contention rt c lastPayload ownerStatus w of
              Inl e \<Rightarrow> (Threw (Fs_error e), w)
            | Inr w' \<Rightarrow> (Retry lastPayload, w')))"

definition acquire_attempt :: "runtime \<Rightarrow> lock_settings \<Rightarrow> world \<Rightarrow> attempt \<times> world" where
  \<comment> \<open>lines 577 to 633: one pass through the loop body\<close>
  "acquire_attempt rt c w =
     (case fs_open_wx w (lock_file_path c) of
        Inr (fd, w1) \<Rightarrow>
          (case handle_writeFile w1 (lock_file_path c) (own_payload rt c w1) of
             Inr w2 \<Rightarrow>
               (Acquired \<lparr>lockPath = lock_file_path c, lockConfigPath = config_path c,
                          fileHandle = fd\<rparr>, w2)
           | Inl code \<Rightarrow> acquire_catch rt c code w1)
      | Inl code \<Rightarrow> acquire_catch rt c code w)"

definition timeout_error :: "lock_settings \<Rightarrow> LockPayload option \<Rightarrow> GatewayLockError" where
  \<comment> \<open>lines 636 and 637\<close>
  "timeout_error c lastPayload =
     (let owner = (case lastPayload of
                     None \<Rightarrow> []
                   | Some pl \<Rightarrow> if pid pl \<noteq> 0 then '' (pid '' @ show_int (pid pl) @ '')'' else [])
      in new_GatewayLockError
           (''gateway already running'' @ owner @ ''; lock timeout after ''
              @ show_int (timeout c) @ ''ms'') None)"

function acquire_loop ::
  "runtime \<Rightarrow> lock_settings \<Rightarrow> int \<Rightarrow> LockPayload option \<Rightarrow> world
     \<Rightarrow> (thrown + GatewayLockHandle) \<times> world" where
  \<comment> \<open>lines 576 to 637: the loop and the timeout after it\<close>
  "acquire_loop rt c startedAt lastPayload w =
     (if Date_now w - startedAt < timeout c then
        (case acquire_attempt rt c w of
           (Acquired h, w') \<Rightarrow> (Inr h, w')
         | (Threw e, w') \<Rightarrow> (Inl e, w')
         | (Retry lp, w') \<Rightarrow> acquire_loop rt c startedAt lp w')
      else (Inl (Lock_error (timeout_error c lastPayload)), w))"
  by pat_completeness auto
termination
proof (relation "measures [\<lambda>(rt, c, s, lp, w). nat (timeout c - (clock w - s)),
                          \<lambda>(rt, c, s, lp, w). if files w (lock_file_path c) = None then 0 else 1]",
       goal_cases)
  case 1
  show ?case by simp
next
  case (2 rt c startedAt lastPayload w x1 x2 x3)
  from 2(2,3) have att: "acquire_attempt rt c w = (Retry x3, x2)" by simp
  then have ex: "files w (lock_file_path c) \<noteq> None"
    by (auto simp: acquire_attempt_def fs_open_wx_def acquire_catch_def handle_writeFile_def
             split: if_splits option.splits sum.splits)
  from att ex have oc:
    "on_contention rt c (readLockPayload w (lock_file_path c))
       (lock_owner_status w (readLockPayload w (lock_file_path c)) (plat c)) w = Inr x2"
    by (auto simp: acquire_attempt_def fs_open_wx_def acquire_catch_def Let_def
             split: if_splits option.splits sum.splits)
  then have "(clock x2 = clock w \<and> files x2 (lock_file_path c) = None) \<or> clock w < clock x2"
    using ex
    by (auto simp: on_contention_def fs_rm_def sleep_def split: if_splits option.splits)
  with 2(1) ex show ?case
    by (auto simp: Date_now_def)
qed

definition lock_disabled :: "GatewayLockOptions \<Rightarrow> (string \<rightharpoonup> string) \<Rightarrow> bool" where
  \<comment> \<open>lines 559 to 562; a string is truthy when it is not empty\<close>
  "lock_disabled opts e =
     (e ''OPENCLAW_ALLOW_MULTI_GATEWAY'' = Some ''1''
      \<or> (\<not> allowInTests opts
          \<and> ((case e ''VITEST'' of None \<Rightarrow> False | Some v \<Rightarrow> v \<noteq> [])
              \<or> e ''NODE_ENV'' = Some ''test'')))"

definition resolve_settings ::
  "runtime \<Rightarrow> GatewayLockOptions \<Rightarrow> (string \<rightharpoonup> string) \<Rightarrow> world \<Rightarrow> lock_settings" where
  \<comment> \<open>lines 566 to 570\<close>
  "resolve_settings rt opts e w =
     \<lparr>lock_file_path = fst (resolveGatewayLockPath rt e),
      config_path = snd (resolveGatewayLockPath rt e),
      timeout = (case timeoutMs opts of None \<Rightarrow> DEFAULT_TIMEOUT_MS | Some t \<Rightarrow> t),
      pollInterval = (case pollIntervalMs opts of None \<Rightarrow> DEFAULT_POLL_INTERVAL_MS | Some t \<Rightarrow> t),
      staleThreshold = (case staleMs opts of None \<Rightarrow> DEFAULT_STALE_MS | Some t \<Rightarrow> t),
      plat = (case platform opts of None \<Rightarrow> process_platform w | Some pf \<Rightarrow> pf)\<rparr>"

definition acquireGatewayLock ::
  "runtime \<Rightarrow> GatewayLockOptions \<Rightarrow> world \<Rightarrow> (thrown + GatewayLockHandle option) \<times> world" where
  \<comment> \<open>lines 554 to 638; \<open>Inr None\<close> is the \<^verbatim>\<open>null\<close> of a disabled lock\<close>
  "acquireGatewayLock rt opts w =
     (let e = (case env opts of None \<Rightarrow> process_env w | Some e' \<Rightarrow> e')
      in if lock_disabled opts e then (Inr None, w)
         else
           (let c = resolve_settings rt opts e w
            in case fs_mkdir_recursive w of
                 Inl err \<Rightarrow> (Inl (Fs_error err), w)
               | Inr w1 \<Rightarrow>
                   (case acquire_loop rt c (Date_now w1) None w1 of
                      (Inl err, w') \<Rightarrow> (Inl err, w')
                    | (Inr h, w') \<Rightarrow> (Inr (Some h), w'))))"

subsection \<open>Releasing the lock\<close>

definition release :: "GatewayLockHandle \<Rightarrow> world \<Rightarrow> (errno + unit) \<times> world" where
  \<comment> \<open>lines 592 to 595: the error of \<^verbatim>\<open>close\<close> is dropped by \<^verbatim>\<open>.catch(() => undefined)\<close>,
      that of \<^verbatim>\<open>rm\<close> is not caught\<close>
  "release h w =
     (case handle_close w (fileHandle h) of
        (err, w1) \<Rightarrow>
          (case fs_rm w1 (lockPath h) True of
             Inl e \<Rightarrow> (Inl e, w1)
           | Inr w2 \<Rightarrow> (Inr (), w2)))"

subsection \<open>Stopping a foreground gateway\<close>

definition pollMs :: int where "pollMs = 100"
definition maxWaitMs :: int where "maxWaitMs = 3000"

function wait_for_exit :: "int \<Rightarrow> int \<Rightarrow> world \<Rightarrow> bool \<times> world" where
  \<comment> \<open>lines 688 to 695: \<open>True\<close> when a poll found the process gone\<close>
  "wait_for_exit p waited w =
     (if waited < maxWaitMs then
        (let w1 = sleep pollMs w;
             waited' = waited + pollMs
         in if \<not> isPidAlive w1 p then (True, w1) else wait_for_exit p waited' w1)
      else (False, w))"
  by pat_completeness auto
termination
  by (relation "measure (\<lambda>(p, waited, w). nat (maxWaitMs - waited))")
     (auto simp: maxWaitMs_def pollMs_def)

definition remove_and_return ::
  "string \<Rightarrow> ForegroundStopResult \<times> int option \<Rightarrow> world
     \<Rightarrow> (errno + ForegroundStopResult \<times> int option) \<times> world" where
  \<comment> \<open>\<^verbatim>\<open>await fs.rm(lockPath, {force: true}); return {result, pid}\<close>\<close>
  "remove_and_return path r w =
     (case fs_rm w path True of Inl e \<Rightarrow> (Inl e, w) | Inr w' \<Rightarrow> (Inr r, w'))"

definition escalate :: "string \<Rightarrow> int \<Rightarrow> world \<Rightarrow> (errno + ForegroundStopResult \<times> int option) \<times> world" where
  \<comment> \<open>lines 697 to 707\<close>
  "escalate path p w =
     (let w1 = (case process_kill w p SIGKILL of Inl e \<Rightarrow> w | Inr w' \<Rightarrow> w');
          w2 = sleep 200 w1
      in remove_and_return path (Stopped, Some p) w2)"

definition tryStopForegroundGateway ::
  "runtime \<Rightarrow> (string \<rightharpoonup> string) option \<Rightarrow> string option \<Rightarrow> world
     \<Rightarrow> (errno + ForegroundStopResult \<times> int option) \<times> world" where
  \<comment> \<open>lines 656 to 708, with \<^verbatim>\<open>opts.env\<close> and \<^verbatim>\<open>opts.platform\<close> as arguments\<close>
  "tryStopForegroundGateway rt opts_env opts_platform w =
     (let e = (case opts_env of None \<Rightarrow> process_env w | Some e' \<Rightarrow> e');
          pf = (case opts_platform of None \<Rightarrow> process_platform w | Some pf' \<Rightarrow> pf');
          path = fst (resolveGatewayLockPath rt e)
      in case readLockPayload w path of
           None \<Rightarrow> (Inr (NoLock, None), w)
         | Some payload \<Rightarrow>
             if resolveGatewayOwnerStatus w (pid payload) (Some payload) pf = Dead
             then remove_and_return path (NotRunning, Some (pid payload)) w
             else
               (case process_kill w (pid payload) SIGTERM of
                  Inl err \<Rightarrow> remove_and_return path (NotRunning, Some (pid payload)) w
                | Inr w1 \<Rightarrow>
                    (case wait_for_exit (pid payload) 0 w1 of
                       (True, w2) \<Rightarrow> remove_and_return path (Stopped, Some (pid payload)) w2
                     | (False, w2) \<Rightarrow> escalate path (pid payload) w2)))"

declare acquire_loop.simps [simp del]
declare wait_for_exit.simps [simp del]
declare show_nat.simps [simp del]

subsection \<open>Concrete worlds\<close>

text \<open>
  A runtime that knows three dates, one lock path, and a machine on which a gateway with
  process id 4242 (start-time counter 987654) holds the lock since the first of the
  dates. The theorems below are instantiated on variations of it.
\<close>

definition iso_table :: "(string \<times> int) list" where
  "iso_table =
     [(''2026-01-01T00:00:00.000Z'', 1767225600000),
      (''2026-01-01T00:00:10.000Z'', 1767225610000),
      (''2026-01-01T01:00:00.000Z'', 1767229200000)]"

definition rt0 :: runtime where
  "rt0 = \<lparr>Date_parse = map_of iso_table,
          toISOString = (\<lambda>t. case map_of (map (\<lambda>(s, t). (t, s)) iso_table) t of
                                 None \<Rightarrow> [] | Some s \<Rightarrow> s),
          resolveGatewayLockPath =
            (\<lambda>e. (''/tmp/openclaw/gateway.0a1b2c3d.lock'', ''/home/u/.openclaw/openclaw.json''))\<rparr>"

definition path0 :: string where
  "path0 = ''/tmp/openclaw/gateway.0a1b2c3d.lock''"

definition stat0 :: string where
  "stat0 = ''4242 (node) S 1 4242 4242 0 -1 4194304 100 0 0 0 5 3 0 0 20 0 11 0 987654 1000 200''"

definition owner0 :: proc where
  "owner0 = \<lparr>stat = Some stat0,
             cmdline = Some (''node'' @ [CHR 0x00] @ ''/opt/openclaw/dist/index.js'' @ [CHR 0x00]
                               @ ''gateway'' @ [CHR 0x00]),
             term_grace = None, exit_at = None\<rparr>"

definition payload0 :: json where
  "payload0 = JObj [(''pid'', JNum 4242), (''createdAt'', JStr ''2026-01-01T00:00:00.000Z''),
                    (''configPath'', JStr ''/home/u/.openclaw/openclaw.json''),
                    (''startTime'', JNum 987654)]"

definition w0 :: world where
  "w0 = \<lparr>clock = 1767225610000,
          files = [path0 \<mapsto> \<lparr>parsed = Some payload0, mtimeMs = 1767225600000, readable = True\<rparr>],
          procs = [4242 \<mapsto> owner0],
          signals = [], open_fault = None, write_fault = None, mkdir_fault = None,
          stat_fault = None, rm_fault = None, close_fault = None, open_fds = [], next_fd = 20,
          process_pid = 5150, process_platform = ''linux'', process_env = Map.empty\<rparr>"

definition c0 :: lock_settings where
  "c0 = \<lparr>lock_file_path = path0, config_path = ''/home/u/.openclaw/openclaw.json'',
          timeout = 200, pollInterval = 50, staleThreshold = 30000, plat = ''linux''\<rparr>"

definition opts0 :: GatewayLockOptions where
  "opts0 = \<lparr>env = None, timeoutMs = Some 200, pollIntervalMs = Some 50, staleMs = None,
             allowInTests = False, platform = None\<rparr>"

definition w_old :: world where
  \<comment> \<open>an hour later: the owner is alive, the lock is far past the threshold\<close>
  "w_old = w0\<lparr>clock := 1767229200000\<rparr>"

definition w_unreadable :: world where
  \<comment> \<open>as \<open>w0\<close> (the payload is ten seconds old), but the owner's \<^verbatim>\<open>/proc\<close> entries
      cannot be read\<close>
  "w_unreadable = w0\<lparr>procs := [4242 \<mapsto> owner0\<lparr>stat := None, cmdline := None\<rparr>]\<rparr>"

definition w_unknown :: world where
  \<comment> \<open>as \<open>w_unreadable\<close>, an hour later\<close>
  "w_unknown = w_unreadable\<lparr>clock := 1767229200000\<rparr>"

definition w_touched :: world where
  \<comment> \<open>as \<open>w_unreadable\<close>, but the file's modification time is a hundred seconds older
      than the payload says\<close>
  "w_touched =
     w_unreadable\<lparr>files := [path0 \<mapsto> \<lparr>parsed = Some payload0, mtimeMs = 1767225500000,
                                        readable = True\<rparr>]\<rparr>"

definition w_gone :: world where
  \<comment> \<open>as \<open>w_unreadable\<close>, but the lock file is not there any more\<close>
  "w_gone = w_unreadable\<lparr>files := Map.empty\<rparr>"

definition w_dead :: world where
  \<comment> \<open>the owner has gone without releasing\<close>
  "w_dead = w0\<lparr>procs := Map.empty\<rparr>"

definition w_reused :: world where
  \<comment> \<open>process id 4242 now belongs to a process that started later\<close>
  "w_reused =
     w0\<lparr>procs := [4242 \<mapsto> owner0\<lparr>stat := Some ''4242 (cat) S 1 4242 4242 0 -1 4194304 100 0 0 0 5 3 0 0 20 0 1 0 999999 1000 200''\<rparr>]\<rparr>"

definition w_full :: world where
  \<comment> \<open>no lock file, and no room to create one\<close>
  "w_full = w0\<lparr>files := Map.empty, open_fault := Some ENOSPC\<rparr>"

definition w_malformed :: world where
  \<comment> \<open>the lock file holds JSON whose \<^verbatim>\<open>pid\<close> is a string\<close>
  "w_malformed =
     w0\<lparr>files := [path0 \<mapsto> \<lparr>parsed = Some (JObj [(''pid'', JStr ''4242''),
                                      (''createdAt'', JStr ''2026-01-01T00:00:00.000Z''),
                                      (''configPath'', JStr ''/home/u/.openclaw/openclaw.json'')]),
                             mtimeMs = 1767225600000, readable = True\<rparr>]\<rparr>"

definition w_pinned :: world where
  \<comment> \<open>as \<open>w_dead\<close>, but the removal of the lock file is refused\<close>
  "w_pinned = w_dead\<lparr>rm_fault := Some EPERM\<rparr>"

definition w_nodir :: world where
  \<comment> \<open>as \<open>w0\<close>, but the lock directory cannot be made\<close>
  "w_nodir = w0\<lparr>mkdir_fault := Some EACCES\<rparr>"

definition w_nostat :: world where
  \<comment> \<open>as \<open>w_unreadable\<close>, but the lock file, which is there, cannot be examined\<close>
  "w_nostat = w_unreadable\<lparr>stat_fault := Some EIO\<rparr>"

definition h0 :: GatewayLockHandle where
  "h0 = \<lparr>lockPath = path0, lockConfigPath = ''/home/u/.openclaw/openclaw.json'', fileHandle = 20\<rparr>"

subsection \<open>Facts about the operating system\<close>

lemma fs_rm_force_ok:
  assumes "rm_fault w = None"
  shows "fs_rm w path True
           = Inr (if files w path = None then w else w\<lparr>files := (files w)(path := None)\<rparr>)"
  using assms by (simp add: fs_rm_def split: option.splits)

lemma fs_rm_force_absent:
  assumes "files w path = None"
  shows "fs_rm w path True = Inr w"
  using assms by (simp add: fs_rm_def)

lemma fs_rm_force_refused:
  assumes "files w path \<noteq> None" and "rm_fault w = Some e"
  shows "fs_rm w path True = Inl (Io e)"
  using assms by (auto simp: fs_rm_def split: option.splits)

lemma fs_rm_force_Inl:
  assumes "fs_rm w path True = Inl err"
  shows "\<exists>e. rm_fault w = Some e \<and> err = Io e \<and> files w path \<noteq> None"
  using assms by (auto simp: fs_rm_def split: option.splits)

lemma fs_rm_force_Inr:
  assumes "fs_rm w path True = Inr w'"
  shows "w' = (if files w path = None then w else w\<lparr>files := (files w)(path := None)\<rparr>)"
    and "files w path = None \<or> rm_fault w = None"
  using assms by (auto simp: fs_rm_def split: option.splits)


lemma readLockPayload_cong:
  assumes "files a = files b"
  shows "readLockPayload a path = readLockPayload b path"
  using assms by (simp add: readLockPayload_def fs_readFile_def)

lemma process_kill_Inr:
  assumes "process_kill w p sg = Inr w1"
  shows "clock w1 = clock w" and "files w1 = files w" and "signals w1 = signals w @ [(p, sg)]"
    and "isPidAlive w p" and "rm_fault w1 = rm_fault w"
  using assms
  by (auto simp: process_kill_def Let_def split: option.splits if_splits)


lemma own_payload_after_open:
  assumes "procs w1 = procs w" and "clock w1 = clock w" and "process_pid w1 = process_pid w"
  shows "own_payload rt c w1 = own_payload rt c w"
proof -
  have "isPidAlive w1 p = isPidAlive w p" for p
    using assms by (simp add: isPidAlive_def split: option.splits)
  then have "readLinuxStartTime w1 p = readLinuxStartTime w p" for p
    using assms by (simp add: readLinuxStartTime_def proc_entry_def split: option.splits)
  then show ?thesis
    using assms by (simp add: own_payload_def Date_now_def)
qed

lemma lock_owner_status_Dead_pid:
  "lock_owner_status w lp pf = Dead \<Longrightarrow> (case lp of None \<Rightarrow> False | Some pl \<Rightarrow> pid pl \<noteq> 0)"
  by (auto simp: lock_owner_status_def split: option.splits if_splits)

lemma on_contention_Inl:
  assumes "on_contention rt c lp st w = Inl err"
  shows "\<exists>e. rm_fault w = Some e \<and> err = Io e \<and> files w (lock_file_path c) \<noteq> None"
  using assms
  by (auto simp: on_contention_def split: if_splits dest: fs_rm_force_Inl)

lemma on_contention_Inr:
  assumes "on_contention rt c lp st w = Inr w'"
  shows "w' = sleep (pollInterval c) w
         \<or> w' = (if files w (lock_file_path c) = None then w
                  else w\<lparr>files := (files w)(lock_file_path c := None)\<rparr>)"
  using assms
  by (auto simp: on_contention_def split: if_splits dest: fs_rm_force_Inr(1))

subsection \<open>Facts about the loops\<close>

lemma acquire_attempt_free:
  assumes "files w (lock_file_path c) = None" and "open_fault w = None" and "write_fault w = None"
  shows "acquire_attempt rt c w
           = (Acquired \<lparr>lockPath = lock_file_path c, lockConfigPath = config_path c,
                        fileHandle = next_fd w\<rparr>,
              w\<lparr>files := (files w)(lock_file_path c \<mapsto>
                     \<lparr>parsed = Some (own_payload rt c w), mtimeMs = clock w, readable = True\<rparr>),
                open_fds := next_fd w # open_fds w,
                next_fd := Suc (next_fd w)\<rparr>)"
proof -
  let ?w1 = "w\<lparr>files := (files w)(lock_file_path c \<mapsto> \<lparr>parsed = None, mtimeMs = clock w, readable = True\<rparr>),
                open_fds := next_fd w # open_fds w, next_fd := Suc (next_fd w)\<rparr>"
  have op: "fs_open_wx w (lock_file_path c) = Inr (next_fd w, ?w1)"
    using assms by (simp add: fs_open_wx_def)
  have pl: "own_payload rt c ?w1 = own_payload rt c w"
    by (rule own_payload_after_open) simp_all
  show ?thesis
    using assms(3) by (simp add: acquire_attempt_def op pl handle_writeFile_def)
qed

lemma acquire_attempt_Threw:
  assumes "acquire_attempt rt c w = (Threw e, w1)"
  shows "(\<exists>code. code \<noteq> EEXIST
            \<and> e = Lock_error (new_GatewayLockError
                     (''failed to acquire gateway lock at '' @ lock_file_path c) (Some code)))
         \<or> (\<exists>f. rm_fault w = Some f \<and> e = Fs_error (Io f))"
  using assms
  by (auto simp: acquire_attempt_def acquire_catch_def fs_open_wx_def handle_writeFile_def Let_def
           split: sum.splits if_splits option.splits dest: on_contention_Inl)

lemma acquire_attempt_Retry:
  assumes "acquire_attempt rt c w = (Retry lp1, w1)"
  shows "lp1 = readLockPayload w (lock_file_path c)
         \<and> (clock w1 = clock w \<or> w1 = sleep (pollInterval c) w)
         \<and> rm_fault w1 = rm_fault w \<and> mkdir_fault w1 = mkdir_fault w"
proof -
  from assms have "acquire_catch rt c EEXIST w = (Retry lp1, w1)"
    by (auto simp: acquire_attempt_def fs_open_wx_def acquire_catch_def handle_writeFile_def
             split: sum.splits if_splits option.splits)
  then have lp1: "lp1 = readLockPayload w (lock_file_path c)"
    and oc: "on_contention rt c (readLockPayload w (lock_file_path c))
      (lock_owner_status w (readLockPayload w (lock_file_path c)) (plat c)) w = Inr w1"
    by (auto simp: acquire_catch_def Let_def split: sum.splits)
  from on_contention_Inr[OF oc]
  have "(clock w1 = clock w \<or> w1 = sleep (pollInterval c) w)
        \<and> rm_fault w1 = rm_fault w \<and> mkdir_fault w1 = mkdir_fault w"
    by (auto simp: sleep_def split: if_splits)
  with lp1 show ?thesis by simp
qed

lemma acquire_loop_errors:
  assumes "acquire_loop rt c s lp w = (Inl err, w')"
  shows "(\<exists>code. code \<noteq> EEXIST
            \<and> err = Lock_error (new_GatewayLockError
                       (''failed to acquire gateway lock at '' @ lock_file_path c) (Some code)))
         \<or> (\<exists>f. rm_fault w = Some f \<and> err = Fs_error (Io f))
         \<or> (\<not> Date_now w' - s < timeout c
             \<and> ((w' = w \<and> err = Lock_error (timeout_error c lp))
                 \<or> (clock w < clock w'
                     \<and> err = Lock_error (timeout_error c (readLockPayload w' (lock_file_path c))))))"
  using assms
proof (induction rt c s lp w rule: acquire_loop.induct)
  case (1 rt c s lp w)
  show ?case
  proof (cases "Date_now w - s < timeout c")
    case False
    with "1.prems" show ?thesis
      by (subst (asm) acquire_loop.simps) simp
  next
    case True
    obtain a w1 where att: "acquire_attempt rt c w = (a, w1)"
      by (cases "acquire_attempt rt c w")
    show ?thesis
    proof (cases a)
      case (Acquired h)
      with "1.prems" True att show ?thesis
        by (subst (asm) acquire_loop.simps) simp
    next
      case (Threw e)
      with "1.prems" True att have "err = e"
        by (subst (asm) acquire_loop.simps) simp
      with acquire_attempt_Threw[of rt c w e w1] att Threw show ?thesis
        by blast
    next
      case (Retry lp1)
      with "1.prems" True att have rec: "acquire_loop rt c s lp1 w1 = (Inl err, w')"
        by (subst (asm) acquire_loop.simps) simp
      from att Retry have att': "acquire_attempt rt c w = (Retry lp1, w1)" by simp
      note ih = "1.IH"[OF True att'[symmetric] refl rec]
      from acquire_attempt_Retry[OF att']
      have lp1: "lp1 = readLockPayload w (lock_file_path c)"
        and step: "clock w1 = clock w \<or> w1 = sleep (pollInterval c) w"
        and rmf: "rm_fault w1 = rm_fault w"
        by simp_all
      from step have mono: "clock w \<le> clock w1" by (auto simp: sleep_def)
      from ih consider
          (fail) "\<exists>code. code \<noteq> EEXIST
            \<and> err = Lock_error (new_GatewayLockError
                       (''failed to acquire gateway lock at '' @ lock_file_path c) (Some code))"
        | (raw) "\<exists>f. rm_fault w1 = Some f \<and> err = Fs_error (Io f)"
        | (here) "\<not> Date_now w' - s < timeout c" "w' = w1"
            "err = Lock_error (timeout_error c lp1)"
        | (later) "\<not> Date_now w' - s < timeout c" "clock w1 < clock w'"
            "err = Lock_error (timeout_error c (readLockPayload w' (lock_file_path c)))"
        by blast
      then show ?thesis
      proof cases
        case fail
        then show ?thesis by blast
      next
        case raw
        with rmf show ?thesis by simp
      next
        case here
        from step show ?thesis
        proof
          assume "clock w1 = clock w"
          with here True show ?thesis by (simp add: Date_now_def)
        next
          assume sl: "w1 = sleep (pollInterval c) w"
          then have "clock w < clock w'" using here(2) by (simp add: sleep_def)
          moreover have "readLockPayload w' (lock_file_path c) = lp1"
            unfolding lp1 here(2) sl by (rule readLockPayload_cong) (simp add: sleep_def)
          ultimately show ?thesis using here by simp
        qed
      next
        case later
        from mono later(2) have "clock w < clock w'" by simp
        with later show ?thesis by simp
      qed
    qed
  qed
qed

lemma alive_owner_times_out:
  assumes "files w (lock_file_path c) \<noteq> None"
    and "\<And>t. clock w \<le> t \<Longrightarrow>
           lock_owner_status (w\<lparr>clock := t\<rparr>) (readLockPayload w (lock_file_path c)) (plat c) = Alive"
  shows "\<exists>t'. clock w \<le> t'
            \<and> acquire_loop rt c s lp w
                = (Inl (Lock_error (timeout_error c
                     (if Date_now w - s < timeout c then readLockPayload w (lock_file_path c) else lp))),
                   w\<lparr>clock := t'\<rparr>)"
  using assms
proof (induction rt c s lp w rule: acquire_loop.induct)
  case (1 rt c s lp w)
  let ?path = "lock_file_path c"
  show ?case
  proof (cases "Date_now w - s < timeout c")
    case False
    then have "acquire_loop rt c s lp w = (Inl (Lock_error (timeout_error c lp)), w\<lparr>clock := clock w\<rparr>)"
      by (subst acquire_loop.simps) simp
    with False show ?thesis by (intro exI[of _ "clock w"]) simp
  next
    case True
    let ?w1 = "sleep (pollInterval c) w"
    let ?lp1 = "readLockPayload w ?path"
    from "1.prems"(2)[of "clock w"] have st: "lock_owner_status w ?lp1 (plat c) = Alive" by simp
    have att: "acquire_attempt rt c w = (Retry ?lp1, ?w1)"
      using "1.prems"(1) st
      by (auto simp: acquire_attempt_def fs_open_wx_def acquire_catch_def on_contention_def)
    have unf: "acquire_loop rt c s lp w = acquire_loop rt c s ?lp1 ?w1"
      by (subst acquire_loop.simps) (simp add: True att)
    have f1: "files ?w1 ?path \<noteq> None" using "1.prems"(1) by (simp add: sleep_def)
    have r1: "readLockPayload ?w1 ?path = ?lp1"
      by (rule readLockPayload_cong) (simp add: sleep_def)
    have ck: "clock w < clock ?w1" by (simp add: sleep_def)
    have s1: "lock_owner_status (?w1\<lparr>clock := t\<rparr>) (readLockPayload ?w1 ?path) (plat c) = Alive"
      if "clock ?w1 \<le> t" for t
    proof -
      have "?w1\<lparr>clock := t\<rparr> = w\<lparr>clock := t\<rparr>" by (simp add: sleep_def)
      moreover have "clock w \<le> t" using that ck by simp
      ultimately show ?thesis using "1.prems"(2)[of t] by (simp add: r1)
    qed
    from "1.IH"[OF True att[symmetric] refl f1 s1]
    obtain t' where t': "clock ?w1 \<le> t'"
      "acquire_loop rt c s ?lp1 ?w1
         = (Inl (Lock_error (timeout_error c
              (if Date_now ?w1 - s < timeout c then readLockPayload ?w1 ?path else ?lp1))),
            ?w1\<lparr>clock := t'\<rparr>)"
      by blast
    have "?w1\<lparr>clock := t'\<rparr> = w\<lparr>clock := t'\<rparr>" by (simp add: sleep_def)
    with t' ck unf True show ?thesis
      by (intro exI[of _ t']) (simp add: r1)
  qed
qed




lemma escalate_removal_refused:
  assumes "files wx path \<noteq> None" and "rm_fault wx = Some e"
  shows "\<exists>wy. escalate path p wx = (Inl (Io e), wy)
        \<and> files wy path = files wx path \<and> clock wy = clock wx + 200"
proof -
  obtain w1 where w1: "w1 = (case process_kill wx p SIGKILL of Inl e \<Rightarrow> wx | Inr w' \<Rightarrow> w')"
    by simp
  have "clock w1 = clock wx" and "rm_fault w1 = Some e" and "files w1 = files wx"
    using w1 assms
    by (auto split: sum.splits dest: process_kill_Inr(1) process_kill_Inr(5) process_kill_Inr(2))
  then have "fs_rm (sleep 200 w1) path True = Inl (Io e)"
    using assms(1) by (intro fs_rm_force_refused) (simp_all add: sleep_def)
  then show ?thesis
    using w1 \<open>clock w1 = clock wx\<close> \<open>files w1 = files wx\<close>
    by (auto simp: escalate_def Let_def remove_and_return_def sleep_def)
qed

subsection \<open>Facts about the concrete worlds\<close>

lemmas world_defs =
  w0_def w_old_def w_unreadable_def w_unknown_def w_touched_def w_dead_def w_reused_def
  w_full_def w_gone_def w_malformed_def w_pinned_def w_nodir_def w_nostat_def
  path0_def owner0_def payload0_def

lemma stat0_start_time:
  assumes "procs w p = Some pr" and "isPidAlive w p" and "stat pr = Some stat0"
  shows "readLinuxStartTime w p = Some 987654"
  using assms
  by (simp add: readLinuxStartTime_def proc_entry_def trim_def is_space_def
      lastIndexOf_def Let_def parseInt10_def is_digit_def digits_value_def upt_conv_Cons stat0_def)

lemma payload0_read:
  assumes "files w path = Some f" and "readable f" and "parsed f = Some payload0"
  shows "readLockPayload w path = Some \<lparr>pid = 4242, createdAt = ''2026-01-01T00:00:00.000Z'',
     configPath = ''/home/u/.openclaw/openclaw.json'', startTime = Some 987654\<rparr>"
  using assms by (simp add: readLockPayload_def fs_readFile_def js_prop_def payload0_def)

lemma payload0_read_worlds:
  "readLockPayload w0 path0 = Some \<lparr>pid = 4242, createdAt = ''2026-01-01T00:00:00.000Z'',
     configPath = ''/home/u/.openclaw/openclaw.json'', startTime = Some 987654\<rparr>"
  "readLockPayload w_old path0 = readLockPayload w0 path0"
  "readLockPayload w_unreadable path0 = readLockPayload w0 path0"
  "readLockPayload w_unknown path0 = readLockPayload w0 path0"
  "readLockPayload w_touched path0 = readLockPayload w0 path0"
  "readLockPayload w_dead path0 = readLockPayload w0 path0"
  "readLockPayload w_reused path0 = readLockPayload w0 path0"
  "readLockPayload w_pinned path0 = readLockPayload w0 path0"
  "readLockPayload w_nodir path0 = readLockPayload w0 path0"
  "readLockPayload w_nostat path0 = readLockPayload w0 path0"
  by (simp_all add: readLockPayload_def fs_readFile_def js_prop_def w0_def w_old_def
      w_unreadable_def w_unknown_def w_touched_def w_dead_def w_reused_def w_pinned_def
      w_nodir_def w_nostat_def payload0_def)

lemma w_pinned_status: "lock_owner_status w_pinned (readLockPayload w_pinned path0) ''linux'' = Dead"
  unfolding payload0_read_worlds(8) payload0_read_worlds(1)
  by (simp add: lock_owner_status_def resolveGatewayOwnerStatus_def isPidAlive_def w_pinned_def
      w_dead_def)

lemma w0_status: "lock_owner_status w0 (readLockPayload w0 path0) ''linux'' = Alive"
proof -
  have a: "isPidAlive w0 4242" by (simp add: isPidAlive_def world_defs)
  have s: "readLinuxStartTime w0 4242 = Some 987654"
    by (rule stat0_start_time[where pr = owner0]) (simp_all add: a, simp_all add: world_defs)
  have r: "readLockPayload w0 path0 = Some \<lparr>pid = 4242, createdAt = ''2026-01-01T00:00:00.000Z'',
     configPath = ''/home/u/.openclaw/openclaw.json'', startTime = Some 987654\<rparr>"
    by (rule payload0_read[where f = "\<lparr>parsed = Some payload0, mtimeMs = 1767225600000, readable = True\<rparr>"])
       (simp_all add: w0_def)
  show ?thesis
    by (simp add: r lock_owner_status_def resolveGatewayOwnerStatus_def a s)
qed

lemma w_old_status: "lock_owner_status w_old (readLockPayload w_old path0) ''linux'' = Alive"
proof -
  have a: "isPidAlive w_old 4242" by (simp add: isPidAlive_def world_defs)
  have s: "readLinuxStartTime w_old 4242 = Some 987654"
    by (rule stat0_start_time[where pr = owner0]) (simp_all add: a, simp_all add: world_defs)
  have r: "readLockPayload w_old path0 = Some \<lparr>pid = 4242, createdAt = ''2026-01-01T00:00:00.000Z'',
     configPath = ''/home/u/.openclaw/openclaw.json'', startTime = Some 987654\<rparr>"
    by (rule payload0_read[where f = "\<lparr>parsed = Some payload0, mtimeMs = 1767225600000, readable = True\<rparr>"])
       (simp_all add: w0_def w_old_def)
  show ?thesis
    by (simp add: r lock_owner_status_def resolveGatewayOwnerStatus_def a s)
qed

lemma unreadable_status:
  assumes "procs w 4242 = Some (owner0\<lparr>stat := None, cmdline := None\<rparr>)"
  shows "lock_owner_status w (readLockPayload w0 path0) ''linux'' = Unknown"
  using assms
  by (simp add: payload0_read_worlds(1) lock_owner_status_def resolveGatewayOwnerStatus_def
      isPidAlive_def readLinuxStartTime_def proc_entry_def owner0_def)

lemma w_unknown_facts:
  "lock_owner_status w_unknown (readLockPayload w_unknown path0) ''linux'' = Unknown"
  "createdAt_stale rt0 w_unknown (readLockPayload w_unknown path0) 30000"
  "files w_unknown path0 \<noteq> None"
proof -
  show "lock_owner_status w_unknown (readLockPayload w_unknown path0) ''linux'' = Unknown"
    unfolding payload0_read_worlds(4)
    by (rule unreadable_status) (simp add: w_unknown_def w_unreadable_def w0_def)
  have ck: "clock w_unknown = 1767229200000" by (simp add: w_unknown_def)
  show "createdAt_stale rt0 w_unknown (readLockPayload w_unknown path0) 30000"
    unfolding payload0_read_worlds(4) payload0_read_worlds(1)
    by (simp add: createdAt_stale_def rt0_def iso_table_def Date_now_def ck)
  show "files w_unknown path0 \<noteq> None"
    by (simp add: w_unknown_def w_unreadable_def w0_def)
qed

lemma w_unreadable_facts:
  "lock_owner_status w_unreadable (readLockPayload w_unreadable path0) ''linux'' = Unknown"
  "\<not> lock_stale rt0 w_unreadable path0 (readLockPayload w_unreadable path0) 30000"
proof -
  show "lock_owner_status w_unreadable (readLockPayload w_unreadable path0) ''linux'' = Unknown"
    unfolding payload0_read_worlds(3)
    by (rule unreadable_status) (simp add: w_unreadable_def w0_def)
  have ck: "clock w_unreadable = 1767225610000" by (simp add: w_unreadable_def w0_def)
  have st: "fs_stat w_unreadable path0 = Inr 1767225600000"
    by (simp add: fs_stat_def w_unreadable_def w0_def)
  show "\<not> lock_stale rt0 w_unreadable path0 (readLockPayload w_unreadable path0) 30000"
    unfolding payload0_read_worlds(3) payload0_read_worlds(1)
    by (simp add: lock_stale_def createdAt_stale_def rt0_def iso_table_def Date_now_def ck st)
qed

lemma w_touched_facts:
  "lock_owner_status w_touched (readLockPayload w_touched path0) ''linux'' = Unknown"
  "\<not> createdAt_stale rt0 w_touched (readLockPayload w_touched path0) 30000"
  "fs_stat w_touched path0 = Inr 1767225500000"
  "clock w_touched = 1767225610000"
  "lock_stale rt0 w_touched path0 (readLockPayload w_touched path0) 30000"
proof -
  show "lock_owner_status w_touched (readLockPayload w_touched path0) ''linux'' = Unknown"
    unfolding payload0_read_worlds(5)
    by (rule unreadable_status) (simp add: w_touched_def w_unreadable_def w0_def)
  show ck: "clock w_touched = 1767225610000"
    by (simp add: w_touched_def w_unreadable_def w0_def)
  show cs: "\<not> createdAt_stale rt0 w_touched (readLockPayload w_touched path0) 30000"
    unfolding payload0_read_worlds(5) payload0_read_worlds(1)
    by (simp add: createdAt_stale_def rt0_def iso_table_def Date_now_def ck)
  show st: "fs_stat w_touched path0 = Inr 1767225500000"
    by (simp add: fs_stat_def w_touched_def w_unreadable_def w0_def)
  show "lock_stale rt0 w_touched path0 (readLockPayload w_touched path0) 30000"
    using cs by (simp add: lock_stale_def st Date_now_def ck)
qed

lemma w_reused_start_time: "readLinuxStartTime w_reused 4242 = Some 999999"
  by (simp add: readLinuxStartTime_def proc_entry_def isPidAlive_def trim_def is_space_def
      lastIndexOf_def Let_def parseInt10_def is_digit_def digits_value_def upt_conv_Cons
      w_reused_def w0_def owner0_def)

lemma w_dead_status: "lock_owner_status w_dead (readLockPayload w_dead path0) ''linux'' = Dead"
  unfolding payload0_read_worlds(6) payload0_read_worlds(1)
  by (simp add: lock_owner_status_def resolveGatewayOwnerStatus_def isPidAlive_def w_dead_def)

lemma opts0_settings: "resolve_settings rt0 opts0 (process_env w) (w\<lparr>process_platform := ''linux''\<rparr>) = c0"
  by (simp add: resolve_settings_def rt0_def opts0_def c0_def path0_def DEFAULT_STALE_MS_def)

lemma w0_stays_alive:
  "lock_owner_status (w0\<lparr>clock := t\<rparr>) (readLockPayload w0 path0) ''linux'' = Alive"
proof -
  have a: "isPidAlive (w0\<lparr>clock := t\<rparr>) 4242" by (simp add: isPidAlive_def w0_def owner0_def)
  have s: "readLinuxStartTime (w0\<lparr>clock := t\<rparr>) 4242 = Some 987654"
    by (rule stat0_start_time[where pr = owner0]) (simp_all add: a, simp_all add: w0_def owner0_def)
  show ?thesis
    unfolding payload0_read_worlds(1)
    by (simp add: lock_owner_status_def resolveGatewayOwnerStatus_def a s)
qed

lemma w0_at_times_out:
  "\<exists>t'. acquireGatewayLock rt0 opts0 (w0\<lparr>clock := t0\<rparr>)
          = (Inl (Lock_error (timeout_error c0 (readLockPayload w0 path0))), w0\<lparr>clock := t'\<rparr>)"
proof -
  let ?w = "w0\<lparr>clock := t0\<rparr>"
  have cc: "lock_file_path c0 = path0" "plat c0 = ''linux''" "timeout c0 = 200"
    by (simp_all add: c0_def)
  have f: "files ?w (lock_file_path c0) \<noteq> None" by (simp add: cc w0_def)
  have rd: "readLockPayload ?w path0 = readLockPayload w0 path0"
    by (rule readLockPayload_cong) simp
  have st: "lock_owner_status (?w\<lparr>clock := t\<rparr>) (readLockPayload ?w (lock_file_path c0)) (plat c0) = Alive"
    for t using w0_stays_alive[of t] by (simp add: cc rd)
  from alive_owner_times_out[OF f st, of rt0 "Date_now ?w" None]
  obtain t' where t': "acquire_loop rt0 c0 (Date_now ?w) None ?w
                = (Inl (Lock_error (timeout_error c0 (readLockPayload w0 path0))), w0\<lparr>clock := t'\<rparr>)"
    by (auto simp: cc rd)
  have en: "env opts0 = None" by (simp add: opts0_def)
  have pw: "?w\<lparr>process_platform := ''linux''\<rparr> = ?w" by (simp add: w0_def)
  have c: "resolve_settings rt0 opts0 (process_env w0) ?w = c0"
    using opts0_settings[of ?w] by (simp add: pw)
  have nd: "\<not> lock_disabled opts0 (process_env w0)"
    by (simp add: lock_disabled_def opts0_def w0_def)
  have mk: "fs_mkdir_recursive ?w = Inr ?w"
    by (simp add: fs_mkdir_recursive_def w0_def)
  have "acquireGatewayLock rt0 opts0 ?w
          = (Inl (Lock_error (timeout_error c0 (readLockPayload w0 path0))), w0\<lparr>clock := t'\<rparr>)"
    using nd by (simp add: acquireGatewayLock_def en c mk t')
  then show ?thesis by blast
qed

lemma w0_acquire_times_out:
  "\<exists>t'. acquireGatewayLock rt0 opts0 w0
          = (Inl (Lock_error (timeout_error c0 (readLockPayload w0 path0))), w0\<lparr>clock := t'\<rparr>)"
  using w0_at_times_out[of "clock w0"] by simp

lemma w_old_acquire_times_out:
  "\<exists>t'. acquireGatewayLock rt0 opts0 w_old
          = (Inl (Lock_error (timeout_error c0 (readLockPayload w0 path0))), w0\<lparr>clock := t'\<rparr>)"
  using w0_at_times_out[of 1767229200000] by (simp add: w_old_def)

lemma w_full_acquire_fails:
  "acquireGatewayLock rt0 opts0 w_full
     = (Inl (Lock_error (new_GatewayLockError
               (''failed to acquire gateway lock at '' @ path0) (Some (Io ENOSPC)))), w_full)"
proof -
  have cc: "lock_file_path c0 = path0" "timeout c0 = 200" by (simp_all add: c0_def)
  have en: "env opts0 = None" by (simp add: opts0_def)
  have pw: "w_full\<lparr>process_platform := ''linux''\<rparr> = w_full" by (simp add: w_full_def w0_def)
  have c: "resolve_settings rt0 opts0 (process_env w_full) w_full = c0"
    using opts0_settings[of w_full] by (simp add: pw)
  have nd: "\<not> lock_disabled opts0 (process_env w_full)"
    by (simp add: lock_disabled_def opts0_def w_full_def w0_def)
  have op: "fs_open_wx w_full path0 = Inl (Io ENOSPC)"
    by (simp add: fs_open_wx_def w_full_def)
  have att: "acquire_attempt rt0 c0 w_full
     = (Threw (Lock_error (new_GatewayLockError
               (''failed to acquire gateway lock at '' @ path0) (Some (Io ENOSPC)))), w_full)"
    by (simp add: acquire_attempt_def cc op acquire_catch_def)
  have lp: "acquire_loop rt0 c0 (Date_now w_full) None w_full
     = (Inl (Lock_error (new_GatewayLockError
               (''failed to acquire gateway lock at '' @ path0) (Some (Io ENOSPC)))), w_full)"
    by (subst acquire_loop.simps) (simp add: cc att)
  have mk: "fs_mkdir_recursive w_full = Inr w_full"
    by (simp add: fs_mkdir_recursive_def w_full_def w0_def)
  show ?thesis
    using nd by (simp add: acquireGatewayLock_def en c mk lp)
qed

lemma w0_timeout_error:
  "timeout_error c0 (readLockPayload w0 path0)
     = \<lparr>name = ''GatewayLockError'',
        message = ''gateway already running (pid 4242); lock timeout after 200ms'',
        cause = None\<rparr>"
  unfolding payload0_read_worlds(1)
  by (simp add: timeout_error_def new_GatewayLockError_def show_int_def show_nat.simps c0_def)

subsection \<open>C1: an owner found alive\<close>

text \<open>
  Claim C1, as amended. In every contention check in which the probe of the owner returns
  \<open>Alive\<close>, acquire computes no staleness and removes nothing: whatever the age of
  \<^verbatim>\<open>createdAt\<close> or of the file, it sleeps one poll interval and goes round again
  with the lock file as it was. Line 612 guards the whole staleness test by
  \<^verbatim>\<open>ownerStatus !== "alive"\<close>. A lock whose owner stays alive is therefore never
  reclaimed: acquire ends in the timeout error, with the lock file in place.
\<close>

theorem alive_owner_never_reclaimed:
  "on_contention rt c lp Alive w = Inr (sleep (pollInterval c) w)
   \<and> files (sleep (pollInterval c) w) = files w
   \<and> clock w < clock (sleep (pollInterval c) w)
   \<and> (lock_owner_status w (readLockPayload w (lock_file_path c)) (plat c) = Alive \<longrightarrow>
        acquire_catch rt c EEXIST w
          = (Retry (readLockPayload w (lock_file_path c)), sleep (pollInterval c) w))
   \<and> (files w (lock_file_path c) \<noteq> None
        \<and> (\<forall>t. clock w \<le> t \<longrightarrow>
              lock_owner_status (w\<lparr>clock := t\<rparr>) (readLockPayload w (lock_file_path c)) (plat c)
                = Alive)
        \<and> Date_now w - s < timeout c \<longrightarrow>
        (\<exists>t'. acquire_loop rt c s lp0 w
                 = (Inl (Lock_error (timeout_error c (readLockPayload w (lock_file_path c)))),
                    w\<lparr>clock := t'\<rparr>)))"
proof -
  have one: "on_contention rt c lp Alive w = Inr (sleep (pollInterval c) w)
   \<and> files (sleep (pollInterval c) w) = files w
   \<and> clock w < clock (sleep (pollInterval c) w)
   \<and> (lock_owner_status w (readLockPayload w (lock_file_path c)) (plat c) = Alive \<longrightarrow>
        acquire_catch rt c EEXIST w
          = (Retry (readLockPayload w (lock_file_path c)), sleep (pollInterval c) w))"
    by (simp add: on_contention_def sleep_def acquire_catch_def)
  have all: "\<exists>t'. acquire_loop rt c s lp0 w
                 = (Inl (Lock_error (timeout_error c (readLockPayload w (lock_file_path c)))),
                    w\<lparr>clock := t'\<rparr>)"
    if f: "files w (lock_file_path c) \<noteq> None"
      and st: "\<forall>t. clock w \<le> t \<longrightarrow>
              lock_owner_status (w\<lparr>clock := t\<rparr>) (readLockPayload w (lock_file_path c)) (plat c)
                = Alive"
      and tm: "Date_now w - s < timeout c"
  proof -
    from st have st': "\<And>t. clock w \<le> t \<Longrightarrow>
        lock_owner_status (w\<lparr>clock := t\<rparr>) (readLockPayload w (lock_file_path c)) (plat c) = Alive"
      by blast
    from alive_owner_times_out[OF f st', of rt s lp0] tm show ?thesis by auto
  qed
  from one all show ?thesis by blast
qed

text \<open>The theorem at the lock of \<open>w0\<close>, whose owner is alive and stays so.\<close>

theorem alive_owner_never_reclaimed_witness:
  "lock_owner_status w0 (readLockPayload w0 (lock_file_path c0)) (plat c0) = Alive
   \<and> acquire_catch rt0 c0 EEXIST w0
        = (Retry (readLockPayload w0 (lock_file_path c0)), sleep (pollInterval c0) w0)
   \<and> files w0 (lock_file_path c0) \<noteq> None
   \<and> Date_now w0 - Date_now w0 < timeout c0
   \<and> fst (acquire_loop rt0 c0 (Date_now w0) None w0)
        = Inl (Lock_error (timeout_error c0 (readLockPayload w0 (lock_file_path c0))))
   \<and> files (snd (acquire_loop rt0 c0 (Date_now w0) None w0)) = files w0"
proof -
  have cc: "lock_file_path c0 = path0" "plat c0 = ''linux''" "timeout c0 = 200"
    by (simp_all add: c0_def)
  have f: "files w0 (lock_file_path c0) \<noteq> None" by (simp add: cc w0_def)
  have st: "\<forall>t. clock w0 \<le> t \<longrightarrow>
      lock_owner_status (w0\<lparr>clock := t\<rparr>) (readLockPayload w0 (lock_file_path c0)) (plat c0) = Alive"
    using w0_stays_alive by (simp add: cc)
  note t = alive_owner_never_reclaimed[of rt0 c0 None w0 "Date_now w0" None]
  from t f st obtain t' where run: "acquire_loop rt0 c0 (Date_now w0) None w0
      = (Inl (Lock_error (timeout_error c0 (readLockPayload w0 (lock_file_path c0)))), w0\<lparr>clock := t'\<rparr>)"
    by (auto simp: cc)
  have a: "acquire_catch rt0 c0 EEXIST w0
        = (Retry (readLockPayload w0 (lock_file_path c0)), sleep (pollInterval c0) w0)"
    using t w0_status by (simp add: cc)
  show ?thesis
    using w0_status f a by (simp add: run cc)
qed

text \<open>
  Claim C1 as stated fails in \<open>w_old\<close>: the owner is alive, the payload is an hour
  old against a threshold of thirty seconds, and the contention check neither removes the
  lock file nor retries at once; it sleeps the fifty milliseconds of the poll interval.
  Nothing recovers the lock either: acquire ends in the timeout error.
\<close>

theorem alive_stale_lock_counterexample:
  "lock_owner_status w_old (readLockPayload w_old path0) (plat c0) = Alive
   \<and> createdAt_stale rt0 w_old (readLockPayload w_old path0) (staleThreshold c0)
   \<and> files (snd (acquire_catch rt0 c0 EEXIST w_old)) path0 \<noteq> None
   \<and> clock (snd (acquire_catch rt0 c0 EEXIST w_old)) = clock w_old + 50
   \<and> fst (acquireGatewayLock rt0 opts0 w_old)
        = Inl (Lock_error \<lparr>name = ''GatewayLockError'',
                 message = ''gateway already running (pid 4242); lock timeout after 200ms'',
                 cause = None\<rparr>)
   \<and> files (snd (acquireGatewayLock rt0 opts0 w_old)) path0 \<noteq> None"
proof -
  have st: "lock_owner_status w_old (readLockPayload w_old path0) (plat c0) = Alive"
    using w_old_status by (simp add: c0_def)
  have r: "readLockPayload w_old path0 = Some \<lparr>pid = 4242, createdAt = ''2026-01-01T00:00:00.000Z'',
     configPath = ''/home/u/.openclaw/openclaw.json'', startTime = Some 987654\<rparr>"
    by (simp add: payload0_read_worlds)
  have ck: "clock w_old = 1767229200000" by (simp add: w_old_def)
  have cs: "createdAt_stale rt0 w_old (readLockPayload w_old path0) (staleThreshold c0)"
    by (simp add: r createdAt_stale_def rt0_def iso_table_def Date_now_def ck c0_def)
  have ac: "acquire_catch rt0 c0 EEXIST w_old = (Retry (readLockPayload w_old path0), sleep 50 w_old)"
    using st by (simp add: acquire_catch_def on_contention_def c0_def)
  have f: "files (sleep 50 w_old) path0 \<noteq> None"
    by (simp add: sleep_def w_old_def w0_def)
  have k: "clock (sleep 50 w_old) = clock w_old + 50"
    by (simp add: sleep_def)
  obtain t' where run: "acquireGatewayLock rt0 opts0 w_old
      = (Inl (Lock_error (timeout_error c0 (readLockPayload w0 path0))), w0\<lparr>clock := t'\<rparr>)"
    using w_old_acquire_times_out by blast
  have f2: "files (w0\<lparr>clock := t'\<rparr>) path0 \<noteq> None" by (simp add: w0_def)
  show ?thesis
    using st cs f k f2 by (simp add: ac run w0_timeout_error)
qed

subsection \<open>C2: an owner of unknown status\<close>

text \<open>
  Claim C2, as amended. In every contention check in which the probe of the owner returns
  \<open>Unknown\<close>, acquire does not behave as for \<open>Alive\<close>: it computes the staleness of the
  lock, and when the lock is stale it force-removes the lock file and goes round again at
  once; only when the lock is not stale does it sleep one poll interval with the file in
  place. (A removal that the file system refuses is not caught: acquire then throws the
  error of the removal.)
\<close>

theorem unknown_owner_reclaimed_when_stale:
  "on_contention rt c lp Unknown w
     = (if lock_stale rt w (lock_file_path c) lp (staleThreshold c)
        then fs_rm w (lock_file_path c) True
        else Inr (sleep (pollInterval c) w))
   \<and> (lock_owner_status w (readLockPayload w (lock_file_path c)) (plat c) = Unknown
        \<and> (rm_fault w = None \<or> files w (lock_file_path c) = None) \<longrightarrow>
        acquire_catch rt c EEXIST w
          = (Retry (readLockPayload w (lock_file_path c)),
             if lock_stale rt w (lock_file_path c) (readLockPayload w (lock_file_path c))
                  (staleThreshold c)
             then (if files w (lock_file_path c) = None then w
                   else w\<lparr>files := (files w)(lock_file_path c := None)\<rparr>)
             else sleep (pollInterval c) w))
   \<and> (lock_owner_status w (readLockPayload w (lock_file_path c)) (plat c) = Unknown
        \<and> rm_fault w = Some e \<and> files w (lock_file_path c) \<noteq> None \<longrightarrow>
        acquire_catch rt c EEXIST w
          = (if lock_stale rt w (lock_file_path c) (readLockPayload w (lock_file_path c))
                  (staleThreshold c)
             then (Threw (Fs_error (Io e)), w)
             else (Retry (readLockPayload w (lock_file_path c)), sleep (pollInterval c) w)))"
  by (auto simp: on_contention_def acquire_catch_def fs_rm_force_ok fs_rm_force_absent
        fs_rm_force_refused)

text \<open>
  The theorem at \<open>w_unknown\<close>, where the lock is stale and is removed, and at
  \<open>w_unreadable\<close>, where it is fresh and acquire sleeps.
\<close>

theorem unknown_owner_reclaimed_when_stale_witness:
  "lock_owner_status w_unknown (readLockPayload w_unknown (lock_file_path c0)) (plat c0) = Unknown
   \<and> rm_fault w_unknown = None
   \<and> acquire_catch rt0 c0 EEXIST w_unknown
        = (Retry (readLockPayload w_unknown path0), w_unknown\<lparr>files := (files w_unknown)(path0 := None)\<rparr>)
   \<and> lock_owner_status w_unreadable (readLockPayload w_unreadable (lock_file_path c0)) (plat c0)
        = Unknown
   \<and> rm_fault w_unreadable = None
   \<and> acquire_catch rt0 c0 EEXIST w_unreadable
        = (Retry (readLockPayload w_unreadable path0), sleep 50 w_unreadable)"
proof -
  have s1: "lock_stale rt0 w_unknown path0 (readLockPayload w_unknown path0) 30000"
    using w_unknown_facts(2) by (simp add: lock_stale_def)
  have nf: "rm_fault w_unknown = None" "rm_fault w_unreadable = None"
    by (simp_all add: w_unknown_def w_unreadable_def w0_def)
  show ?thesis
    using unknown_owner_reclaimed_when_stale[of rt0 c0 None w_unknown]
      unknown_owner_reclaimed_when_stale[of rt0 c0 None w_unreadable]
      w_unknown_facts(1,3) w_unreadable_facts s1 nf
    by (simp add: c0_def)
qed

text \<open>
  Claim C2 as stated fails in \<open>w_unknown\<close>: the probe returns \<open>Unknown\<close>, and the
  contention check removes the lock file and retries without sleeping.
\<close>

theorem unknown_owner_counterexample:
  "lock_owner_status w_unknown (readLockPayload w_unknown path0) (plat c0) = Unknown
   \<and> files w_unknown path0 \<noteq> None
   \<and> files (snd (acquire_catch rt0 c0 EEXIST w_unknown)) path0 = None
   \<and> clock (snd (acquire_catch rt0 c0 EEXIST w_unknown)) = clock w_unknown"
proof -
  have s1: "lock_stale rt0 w_unknown path0 (readLockPayload w_unknown path0) 30000"
    using w_unknown_facts(2) by (simp add: lock_stale_def)
  have st: "lock_owner_status w_unknown (readLockPayload w_unknown path0) ''linux'' = Unknown"
    by (rule w_unknown_facts(1))
  have nf: "rm_fault w_unknown = None"
    by (simp add: w_unknown_def w_unreadable_def w0_def)
  have "on_contention rt0 c0 (readLockPayload w_unknown path0) Unknown w_unknown
          = Inr (w_unknown\<lparr>files := (files w_unknown)(path0 := None)\<rparr>)"
    using s1 w_unknown_facts(3) by (auto simp: on_contention_def c0_def fs_rm_force_ok[OF nf])
  then have ac: "acquire_catch rt0 c0 EEXIST w_unknown
          = (Retry (readLockPayload w_unknown path0), w_unknown\<lparr>files := (files w_unknown)(path0 := None)\<rparr>)"
    using st by (simp add: acquire_catch_def c0_def)
  have pc: "plat c0 = ''linux''" by (simp add: c0_def)
  show ?thesis
    using st w_unknown_facts(3) by (simp add: ac pc)
qed

subsection \<open>C3: the start-time probe\<close>

text \<open>
  Claim C3. On Linux, for a process id that exists and a payload whose \<^verbatim>\<open>startTime\<close>
  is a number, the probe returns \<open>Unknown\<close> when the current start-time counter of the
  process cannot be read, \<open>Dead\<close> when it can and differs from the payload's, and \<open>Alive\<close>
  when it matches. When it differs, the contention check of acquire on that lock (whose
  recorded pid, being that of a process, is not 0) removes the lock file and goes round
  again at once. (A removal that the file system refuses is not caught: acquire then
  throws the error of the removal.)
\<close>

theorem start_time_probe:
  assumes "isPidAlive w p" and "startTime pl = Some st"
  shows "resolveGatewayOwnerStatus w p (Some pl) ''linux''
           = (case readLinuxStartTime w p of
                None \<Rightarrow> Unknown
              | Some cur \<Rightarrow> if cur = st then Alive else Dead)
         \<and> (readLockPayload w (lock_file_path c) = Some pl \<and> pid pl = p \<and> p \<noteq> 0
              \<and> plat c = ''linux'' \<and> readLinuxStartTime w p = Some cur \<and> cur \<noteq> st
            \<longrightarrow> acquire_catch rt c EEXIST w
                  = (case rm_fault w of
                       None \<Rightarrow> (Retry (Some pl), w\<lparr>files := (files w)(lock_file_path c := None)\<rparr>)
                     | Some e \<Rightarrow> (Threw (Fs_error (Io e)), w)))"
proof -
  have probe: "resolveGatewayOwnerStatus w p (Some pl) ''linux''
           = (case readLinuxStartTime w p of
                None \<Rightarrow> Unknown
              | Some cur \<Rightarrow> if cur = st then Alive else Dead)"
    using assms by (simp add: resolveGatewayOwnerStatus_def split: option.splits)
  have reclaim: "acquire_catch rt c EEXIST w
                  = (case rm_fault w of
                       None \<Rightarrow> (Retry (Some pl), w\<lparr>files := (files w)(lock_file_path c := None)\<rparr>)
                     | Some e \<Rightarrow> (Threw (Fs_error (Io e)), w))"
    if h: "readLockPayload w (lock_file_path c) = Some pl" "pid pl = p" "p \<noteq> 0"
      "plat c = ''linux''" "readLinuxStartTime w p = Some cur" "cur \<noteq> st"
  proof -
    have ex: "files w (lock_file_path c) \<noteq> None"
      using h(1) by (auto simp: readLockPayload_def fs_readFile_def split: option.splits)
    have "lock_owner_status w (Some pl) ''linux'' = Dead"
      using h probe by (simp add: lock_owner_status_def)
    then show ?thesis
      using h ex
      by (auto simp: acquire_catch_def on_contention_def fs_rm_force_ok fs_rm_force_refused
               split: option.splits)
  qed
  from probe reclaim show ?thesis by blast
qed

text \<open>
  The theorem at \<open>w_reused\<close>, where process 4242 exists with start-time counter 999999
  against the 987654 of the payload: the probe says \<open>Dead\<close> and the lock is reclaimed;
  at \<open>w0\<close>, where the counters match; and at \<open>w_unreadable\<close>, where the counter cannot
  be read.
\<close>

theorem start_time_probe_witness:
  "isPidAlive w_reused 4242
   \<and> readLockPayload w_reused path0
        = Some \<lparr>pid = 4242, createdAt = ''2026-01-01T00:00:00.000Z'',
                configPath = ''/home/u/.openclaw/openclaw.json'', startTime = Some 987654\<rparr>
   \<and> readLinuxStartTime w_reused 4242 = Some 999999
   \<and> rm_fault w_reused = None
   \<and> resolveGatewayOwnerStatus w_reused 4242 (readLockPayload w_reused path0) ''linux'' = Dead
   \<and> acquire_catch rt0 c0 EEXIST w_reused
        = (Retry (readLockPayload w_reused path0), w_reused\<lparr>files := (files w_reused)(path0 := None)\<rparr>)
   \<and> isPidAlive w0 4242
   \<and> resolveGatewayOwnerStatus w0 4242 (readLockPayload w0 path0) ''linux'' = Alive
   \<and> isPidAlive w_unreadable 4242
   \<and> resolveGatewayOwnerStatus w_unreadable 4242 (readLockPayload w_unreadable path0) ''linux''
        = Unknown"
proof -
  let ?pl = "\<lparr>pid = 4242, createdAt = ''2026-01-01T00:00:00.000Z'',
                configPath = ''/home/u/.openclaw/openclaw.json'', startTime = Some 987654\<rparr>"
  have c: "lock_file_path c0 = path0" "plat c0 = ''linux''" by (simp_all add: c0_def)
  have a1: "isPidAlive w_reused 4242" by (simp add: isPidAlive_def w_reused_def w0_def owner0_def)
  have a2: "isPidAlive w0 4242" by (simp add: isPidAlive_def w0_def owner0_def)
  have a3: "isPidAlive w_unreadable 4242"
    by (simp add: isPidAlive_def w_unreadable_def w0_def owner0_def)
  have r1: "readLockPayload w_reused path0 = Some ?pl"
    and r2: "readLockPayload w0 path0 = Some ?pl"
    and r3: "readLockPayload w_unreadable path0 = Some ?pl"
    by (simp_all add: payload0_read_worlds)
  have s2: "readLinuxStartTime w0 4242 = Some 987654"
    by (rule stat0_start_time[where pr = owner0]) (simp_all add: a2, simp_all add: w0_def owner0_def)
  have s3: "readLinuxStartTime w_unreadable 4242 = None"
    by (simp add: readLinuxStartTime_def proc_entry_def w_unreadable_def owner0_def)
  note t1 = start_time_probe[OF a1, of ?pl 987654 c0 999999 rt0]
  note t2 = start_time_probe[OF a2, of ?pl 987654 c0 0 rt0]
  note t3 = start_time_probe[OF a3, of ?pl 987654 c0 0 rt0]
  have p1: "resolveGatewayOwnerStatus w_reused 4242 (Some ?pl) ''linux'' = Dead"
    using t1 by (simp add: w_reused_start_time)
  have nf: "rm_fault w_reused = None" by (simp add: w_reused_def w0_def)
  have q1: "acquire_catch rt0 c0 EEXIST w_reused
        = (Retry (Some ?pl), w_reused\<lparr>files := (files w_reused)(path0 := None)\<rparr>)"
    using t1 r1 by (simp add: c w_reused_start_time nf)
  have p2: "resolveGatewayOwnerStatus w0 4242 (Some ?pl) ''linux'' = Alive"
    using t2 by (simp add: s2)
  have p3: "resolveGatewayOwnerStatus w_unreadable 4242 (Some ?pl) ''linux'' = Unknown"
    using t3 by (simp add: s3)
  show ?thesis
    using a1 a2 a3 p1 q1 p2 p3 nf w_reused_start_time unfolding r1 r2 r3 by simp
qed

subsection \<open>C4: an owner found dead\<close>

text \<open>
  Claim C4. In every contention check in which the probe of the owner returns \<open>Dead\<close>,
  acquire removes the lock file and goes round again in a world whose clock has not
  moved. With nobody else at the lock and no failure of the file system, the next pass
  creates the file: acquire returns the handle without any time spent sleeping, the lock
  file then holding the payload of the new owner. (A removal that the file system
  refuses is not caught: acquire then throws the error of the removal.)
\<close>

theorem dead_owner_reclaimed_at_once:
  assumes "lock_owner_status w (readLockPayload w (lock_file_path c)) (plat c) = Dead"
  shows "acquire_catch rt c EEXIST w
           = (case rm_fault w of
                None \<Rightarrow> (Retry (readLockPayload w (lock_file_path c)),
                         w\<lparr>files := (files w)(lock_file_path c := None)\<rparr>)
              | Some e \<Rightarrow> (Threw (Fs_error (Io e)), w))
         \<and> (rm_fault w = None \<and> open_fault w = None \<and> write_fault w = None
              \<and> Date_now w - startedAt < timeout c \<longrightarrow>
              (\<exists>w'. acquire_loop rt c startedAt lp w
                       = (Inr \<lparr>lockPath = lock_file_path c, lockConfigPath = config_path c,
                               fileHandle = next_fd w\<rparr>, w')
                    \<and> clock w' = clock w
                    \<and> files w' (lock_file_path c)
                        = Some \<lparr>parsed = Some (own_payload rt c w), mtimeMs = clock w,
                                readable = True\<rparr>))
         \<and> (c = resolve_settings rt opts (case env opts of None \<Rightarrow> process_env w | Some e' \<Rightarrow> e') w
              \<and> \<not> lock_disabled opts (case env opts of None \<Rightarrow> process_env w | Some e' \<Rightarrow> e')
              \<and> mkdir_fault w = None \<and> rm_fault w = None \<and> open_fault w = None
              \<and> write_fault w = None \<and> 0 < timeout c \<longrightarrow>
              (\<exists>w'. acquireGatewayLock rt opts w
                       = (Inr (Some \<lparr>lockPath = lock_file_path c, lockConfigPath = config_path c,
                                     fileHandle = next_fd w\<rparr>), w')
                    \<and> clock w' = clock w
                    \<and> files w' (lock_file_path c)
                        = Some \<lparr>parsed = Some (own_payload rt c w), mtimeMs = clock w,
                                readable = True\<rparr>))"
proof -
  let ?path = "lock_file_path c"
  let ?w2 = "w\<lparr>files := (files w)(?path := None)\<rparr>"
  from lock_owner_status_Dead_pid[OF assms]
  obtain pl where pl: "readLockPayload w ?path = Some pl" "pid pl \<noteq> 0"
    by (auto split: option.splits)
  have ex: "files w ?path \<noteq> None"
    using pl(1) by (auto simp: readLockPayload_def fs_readFile_def split: option.splits)
  have oc: "on_contention rt c (Some pl) Dead w = fs_rm w ?path True"
    using pl(2) by (simp add: on_contention_def)
  have rm: "fs_rm w ?path True = (case rm_fault w of None \<Rightarrow> Inr ?w2 | Some e \<Rightarrow> Inl (Io e))"
    using ex by (auto simp: fs_rm_def split: option.splits)
  have ac: "acquire_catch rt c EEXIST w
           = (case rm_fault w of
                None \<Rightarrow> (Retry (readLockPayload w ?path), ?w2)
              | Some e \<Rightarrow> (Threw (Fs_error (Io e)), w))"
    using assms by (simp add: acquire_catch_def pl(1) oc rm split: option.splits)
  have loop: "\<exists>w'. acquire_loop rt c s l w
                       = (Inr \<lparr>lockPath = ?path, lockConfigPath = config_path c,
                               fileHandle = next_fd w\<rparr>, w')
                    \<and> clock w' = clock w
                    \<and> files w' ?path
                        = Some \<lparr>parsed = Some (own_payload rt c w), mtimeMs = clock w,
                                readable = True\<rparr>"
    if rf: "rm_fault w = None" and nf: "open_fault w = None" and wf: "write_fault w = None"
      and tm: "Date_now w - s < timeout c" for s l
  proof -
    have a1: "acquire_attempt rt c w = (Retry (readLockPayload w ?path), ?w2)"
      using ex rf by (auto simp: acquire_attempt_def fs_open_wx_def ac)
    have pl2: "own_payload rt c ?w2 = own_payload rt c w"
      by (rule own_payload_after_open) simp_all
    have a2: "acquire_attempt rt c ?w2
           = (Acquired \<lparr>lockPath = ?path, lockConfigPath = config_path c, fileHandle = next_fd w\<rparr>,
              ?w2\<lparr>files := (files ?w2)(?path \<mapsto>
                     \<lparr>parsed = Some (own_payload rt c w), mtimeMs = clock w, readable = True\<rparr>),
                open_fds := next_fd w # open_fds w,
                next_fd := Suc (next_fd w)\<rparr>)"
      using acquire_attempt_free[of ?w2 c rt] nf wf by (simp add: pl2)
    have tm2: "Date_now ?w2 - s < timeout c"
      using tm by (simp add: Date_now_def)
    have "acquire_loop rt c s l w
            = acquire_loop rt c s (readLockPayload w ?path) ?w2"
      by (subst acquire_loop.simps) (simp add: tm a1)
    also have "\<dots> = (Inr \<lparr>lockPath = ?path, lockConfigPath = config_path c, fileHandle = next_fd w\<rparr>,
              ?w2\<lparr>files := (files ?w2)(?path \<mapsto>
                     \<lparr>parsed = Some (own_payload rt c w), mtimeMs = clock w, readable = True\<rparr>),
                open_fds := next_fd w # open_fds w,
                next_fd := Suc (next_fd w)\<rparr>)"
      by (subst acquire_loop.simps) (simp add: tm2 a2)
    finally show ?thesis by simp
  qed
  have whole: "\<exists>w'. acquireGatewayLock rt opts w
                       = (Inr (Some \<lparr>lockPath = ?path, lockConfigPath = config_path c,
                                     fileHandle = next_fd w\<rparr>), w')
                    \<and> clock w' = clock w
                    \<and> files w' ?path
                        = Some \<lparr>parsed = Some (own_payload rt c w), mtimeMs = clock w,
                                readable = True\<rparr>"
    if c: "c = resolve_settings rt opts (case env opts of None \<Rightarrow> process_env w | Some e' \<Rightarrow> e') w"
      and en: "\<not> lock_disabled opts (case env opts of None \<Rightarrow> process_env w | Some e' \<Rightarrow> e')"
      and mf: "mkdir_fault w = None" and rf: "rm_fault w = None"
      and nf: "open_fault w = None" and wf: "write_fault w = None" and tm: "0 < timeout c"
  proof -
    from tm have "Date_now w - Date_now w < timeout c" by simp
    from loop[OF rf nf wf this, of None]
    obtain w' where w': "acquire_loop rt c (Date_now w) None w
                       = (Inr \<lparr>lockPath = ?path, lockConfigPath = config_path c,
                               fileHandle = next_fd w\<rparr>, w')"
      "clock w' = clock w"
      "files w' ?path = Some \<lparr>parsed = Some (own_payload rt c w), mtimeMs = clock w,
                                readable = True\<rparr>"
      by blast
    have mk: "fs_mkdir_recursive w = Inr w" using mf by (simp add: fs_mkdir_recursive_def)
    have "acquireGatewayLock rt opts w
            = (Inr (Some \<lparr>lockPath = ?path, lockConfigPath = config_path c,
                                     fileHandle = next_fd w\<rparr>), w')"
      using en w'(1) unfolding acquireGatewayLock_def Let_def c[symmetric] by (simp add: mk)
    with w'(2,3) show ?thesis by blast
  qed
  from ac loop whole show ?thesis by blast
qed

text \<open>
  The theorem at \<open>w_dead\<close>, where the recorded owner 4242 is no process: the check
  removes the lock file, and acquire returns the handle with the clock where it was.
\<close>

theorem dead_owner_reclaimed_at_once_witness:
  "lock_owner_status w_dead (readLockPayload w_dead (lock_file_path c0)) (plat c0) = Dead
   \<and> acquire_catch rt0 c0 EEXIST w_dead
        = (Retry (readLockPayload w_dead path0), w_dead\<lparr>files := (files w_dead)(path0 := None)\<rparr>)
   \<and> mkdir_fault w_dead = None \<and> rm_fault w_dead = None
   \<and> open_fault w_dead = None \<and> write_fault w_dead = None
   \<and> Date_now w_dead - Date_now w_dead < timeout c0
   \<and> fst (acquire_loop rt0 c0 (Date_now w_dead) None w_dead) = Inr h0
   \<and> clock (snd (acquire_loop rt0 c0 (Date_now w_dead) None w_dead)) = clock w_dead
   \<and> fst (acquireGatewayLock rt0 opts0 w_dead) = Inr (Some h0)
   \<and> clock (snd (acquireGatewayLock rt0 opts0 w_dead)) = clock w_dead
   \<and> files (snd (acquireGatewayLock rt0 opts0 w_dead)) path0
        = Some \<lparr>parsed = Some (own_payload rt0 c0 w_dead), mtimeMs = clock w_dead, readable = True\<rparr>"
proof -
  have cc: "lock_file_path c0 = path0" "plat c0 = ''linux''" "timeout c0 = 200"
    "config_path c0 = ''/home/u/.openclaw/openclaw.json''"
    by (simp_all add: c0_def)
  have st: "lock_owner_status w_dead (readLockPayload w_dead (lock_file_path c0)) (plat c0) = Dead"
    using w_dead_status by (simp add: cc)
  have en: "env opts0 = None" by (simp add: opts0_def)
  have pw: "w_dead\<lparr>process_platform := ''linux''\<rparr> = w_dead" by (simp add: w_dead_def w0_def)
  have c: "c0 = resolve_settings rt0 opts0 (case env opts0 of None \<Rightarrow> process_env w_dead | Some e' \<Rightarrow> e') w_dead"
    using opts0_settings[of w_dead] by (simp add: en pw)
  have nd: "\<not> lock_disabled opts0 (case env opts0 of None \<Rightarrow> process_env w_dead | Some e' \<Rightarrow> e')"
    by (simp add: lock_disabled_def en w_dead_def w0_def)
  have nf: "open_fault w_dead = None" "write_fault w_dead = None" "rm_fault w_dead = None"
    "mkdir_fault w_dead = None" and fd: "next_fd w_dead = 20"
    by (simp_all add: w_dead_def w0_def)
  have h: "\<lparr>lockPath = path0, lockConfigPath = ''/home/u/.openclaw/openclaw.json'', fileHandle = 20\<rparr> = h0"
    by (simp add: h0_def)
  have tm: "Date_now w_dead - Date_now w_dead < timeout c0" by (simp add: cc)
  from dead_owner_reclaimed_at_once[OF st, of rt0 "Date_now w_dead" None opts0] c nd nf tm
  show ?thesis
    using st by (auto simp: cc fd h)
qed

subsection \<open>C5: how staleness is decided\<close>

text \<open>
  Claim C5, as amended. The staleness test looks at \<^verbatim>\<open>createdAt\<close> first, and the
  modification time of the lock file is left out only when \<^verbatim>\<open>createdAt\<close> is present,
  parses, and is older than the threshold: then the lock is stale whatever the file system
  holds or answers. In every other case (\<^verbatim>\<open>createdAt\<close> missing, empty or unparsable, and also
  present and valid but not older than the threshold) the verdict is that of the fallback:
  stale when the modification time is older than the threshold or cannot be read.
\<close>

theorem mtime_fallback_unless_createdAt_stale:
  "createdAt_stale rt w lp ms
     = (case lp of
          None \<Rightarrow> False
        | Some pl \<Rightarrow>
            (case Date_parse rt (createdAt pl) of
               None \<Rightarrow> False
             | Some t \<Rightarrow> createdAt pl \<noteq> [] \<and> ms < Date_now w - t))
   \<and> (createdAt_stale rt w lp ms \<longrightarrow>
        lock_stale rt (w\<lparr>files := fs, stat_fault := sf\<rparr>) path lp ms)
   \<and> (\<not> createdAt_stale rt w lp ms \<longrightarrow>
        lock_stale rt w path lp ms
          = (case fs_stat w path of Inr mtime \<Rightarrow> ms < Date_now w - mtime | Inl e \<Rightarrow> True))"
  by (auto simp: lock_stale_def createdAt_stale_def Date_now_def split: option.splits)

text \<open>
  The theorem at \<open>w_unknown\<close>, where \<^verbatim>\<open>createdAt\<close> is an hour old and decides alone
  (here against the file system of \<open>w_gone\<close>), and at \<open>w_touched\<close>, where it is ten
  seconds old and the modification time decides.
\<close>

theorem mtime_fallback_unless_createdAt_stale_witness:
  "createdAt_stale rt0 w_unknown (readLockPayload w_unknown path0) 30000
   \<and> lock_stale rt0 (w_unknown\<lparr>files := files w_gone, stat_fault := Some EIO\<rparr>) path0
         (readLockPayload w_unknown path0) 30000
   \<and> \<not> createdAt_stale rt0 w_touched (readLockPayload w_touched path0) 30000
   \<and> lock_stale rt0 w_touched path0 (readLockPayload w_touched path0) 30000
        = (case fs_stat w_touched path0 of
             Inr mtime \<Rightarrow> 30000 < Date_now w_touched - mtime
           | Inl e \<Rightarrow> True)"
  using mtime_fallback_unless_createdAt_stale
          [where rt = rt0 and w = w_unknown and lp = "readLockPayload w_unknown path0"
             and ms = 30000 and fs = "files w_gone" and sf = "Some EIO" and path = path0]
        mtime_fallback_unless_createdAt_stale
          [where rt = rt0 and w = w_touched and lp = "readLockPayload w_touched path0"
             and ms = 30000 and path = path0]
        w_unknown_facts(2) w_touched_facts(2)
  by simp

text \<open>
  Claim C5 as stated fails in \<open>w_touched\<close>: \<^verbatim>\<open>createdAt\<close> is present and parses, the
  payload is ten seconds old against a threshold of thirty, and yet the lock is stale and
  is removed, because the file's modification time is a hundred and ten seconds old. In
  \<open>w_unreadable\<close>, which differs from \<open>w_touched\<close> in that modification time only, the
  same payload at the same moment is not stale: the fallback was consulted.
\<close>

theorem valid_createdAt_mtime_counterexample:
  "readLockPayload w_touched path0
     = Some \<lparr>pid = 4242, createdAt = ''2026-01-01T00:00:00.000Z'',
             configPath = ''/home/u/.openclaw/openclaw.json'', startTime = Some 987654\<rparr>
   \<and> Date_parse rt0 ''2026-01-01T00:00:00.000Z'' = Some 1767225600000
   \<and> Date_now w_touched - 1767225600000 = 10000
   \<and> lock_owner_status w_touched (readLockPayload w_touched path0) (plat c0) = Unknown
   \<and> lock_stale rt0 w_touched path0 (readLockPayload w_touched path0) (staleThreshold c0)
   \<and> files (snd (acquire_catch rt0 c0 EEXIST w_touched)) path0 = None
   \<and> readLockPayload w_unreadable path0 = readLockPayload w_touched path0
   \<and> Date_now w_unreadable = Date_now w_touched
   \<and> \<not> lock_stale rt0 w_unreadable path0 (readLockPayload w_unreadable path0) (staleThreshold c0)"
proof -
  have c: "plat c0 = ''linux''" "staleThreshold c0 = 30000" "lock_file_path c0 = path0"
    by (simp_all add: c0_def)
  have dp: "Date_parse rt0 ''2026-01-01T00:00:00.000Z'' = Some 1767225600000"
    by (simp add: rt0_def iso_table_def)
  have ex: "files w_touched path0 \<noteq> None" by (simp add: w_touched_def)
  have nf: "rm_fault w_touched = None" by (simp add: w_touched_def w_unreadable_def w0_def)
  have "on_contention rt0 c0 (readLockPayload w_touched path0) Unknown w_touched
          = Inr (w_touched\<lparr>files := (files w_touched)(path0 := None)\<rparr>)"
    using w_touched_facts(5) ex by (auto simp: on_contention_def c fs_rm_force_ok[OF nf])
  then have ac: "acquire_catch rt0 c0 EEXIST w_touched
          = (Retry (readLockPayload w_touched path0),
             w_touched\<lparr>files := (files w_touched)(path0 := None)\<rparr>)"
    using w_touched_facts(1) by (simp add: acquire_catch_def c)
  have ck: "Date_now w_unreadable = Date_now w_touched"
    by (simp add: Date_now_def w_touched_def)
  show ?thesis
    using w_touched_facts w_unreadable_facts(2) dp ck
    by (simp add: ac c payload0_read_worlds Date_now_def)
qed

subsection \<open>C6: the errors of acquire\<close>

lemma w_nodir_acquire_fails:
  "acquireGatewayLock rt0 opts0 w_nodir = (Inl (Fs_error (Io EACCES)), w_nodir)"
proof -
  have en: "env opts0 = None" by (simp add: opts0_def)
  have nd: "\<not> lock_disabled opts0 (process_env w_nodir)"
    by (simp add: lock_disabled_def opts0_def w_nodir_def w0_def)
  have mk: "fs_mkdir_recursive w_nodir = Inl (Io EACCES)"
    by (simp add: fs_mkdir_recursive_def w_nodir_def)
  show ?thesis
    using nd by (simp add: acquireGatewayLock_def en mk)
qed

lemma w_pinned_acquire_fails:
  "acquireGatewayLock rt0 opts0 w_pinned = (Inl (Fs_error (Io EPERM)), w_pinned)"
proof -
  have cc: "lock_file_path c0 = path0" "plat c0 = ''linux''" "timeout c0 = 200"
    by (simp_all add: c0_def)
  have en: "env opts0 = None" by (simp add: opts0_def)
  have pw: "w_pinned\<lparr>process_platform := ''linux''\<rparr> = w_pinned"
    by (simp add: w_pinned_def w_dead_def w0_def)
  have c: "resolve_settings rt0 opts0 (process_env w_pinned) w_pinned = c0"
    using opts0_settings[of w_pinned] by (simp add: pw)
  have nd: "\<not> lock_disabled opts0 (process_env w_pinned)"
    by (simp add: lock_disabled_def opts0_def w_pinned_def w_dead_def w0_def)
  have mk: "fs_mkdir_recursive w_pinned = Inr w_pinned"
    by (simp add: fs_mkdir_recursive_def w_pinned_def w_dead_def w0_def)
  have ex: "files w_pinned path0 \<noteq> None" and rf: "rm_fault w_pinned = Some EPERM"
    by (simp_all add: w_pinned_def w_dead_def w0_def)
  have op: "fs_open_wx w_pinned path0 = Inl EEXIST"
    using ex by (simp add: fs_open_wx_def)
  have pid: "case readLockPayload w_pinned path0 of None \<Rightarrow> False | Some pl \<Rightarrow> pid pl \<noteq> 0"
    using lock_owner_status_Dead_pid[OF w_pinned_status] .
  have oc: "on_contention rt0 c0 (readLockPayload w_pinned path0) Dead w_pinned = Inl (Io EPERM)"
    using pid by (simp add: on_contention_def cc fs_rm_force_refused[OF ex rf])
  have att: "acquire_attempt rt0 c0 w_pinned = (Threw (Fs_error (Io EPERM)), w_pinned)"
    using w_pinned_status by (simp add: acquire_attempt_def cc op acquire_catch_def oc)
  have lp: "acquire_loop rt0 c0 (Date_now w_pinned) None w_pinned
              = (Inl (Fs_error (Io EPERM)), w_pinned)"
    by (subst acquire_loop.simps) (simp add: cc att)
  show ?thesis
    using nd by (simp add: acquireGatewayLock_def en c mk lp)
qed

text \<open>
  Claim C6, as amended. Acquire reports a timeout and a failure of the exclusive creation
  with one and the same error type, \<^verbatim>\<open>GatewayLockError\<close>; a caller can tell these two
  apart by their content only. An error inside the \<^verbatim>\<open>try\<close> block whose code is not
  \<^verbatim>\<open>EEXIST\<close> aborts at once, in the world as it is (no payload is read, nothing is
  removed, nothing sleeps), with the message \<^verbatim>\<open>failed to acquire gateway lock at\<close>
  followed by the path, and the error as \<^verbatim>\<open>cause\<close>. The timeout error has no
  \<^verbatim>\<open>cause\<close>; its message names the pid of the payload read in the last contention
  check when that payload was read and its pid is not 0. The other failures of the file
  system are not wrapped at all: a rejected \<^verbatim>\<open>mkdir\<close> of the lock directory (line 571,
  before the \<^verbatim>\<open>try\<close>) and a rejected removal of the lock file (lines 609 and 627, inside
  the \<^verbatim>\<open>catch\<close>) reach the caller as they are. Every error thrown by acquire is one of
  these three kinds, the timeout only when the time is up, with the payload of the lock
  file as it then stands (no payload when the loop never ran).
\<close>

theorem acquire_errors_one_type:
  "(code \<noteq> EEXIST \<longrightarrow>
      acquire_catch rt c code w
        = (Threw (Lock_error \<lparr>name = ''GatewayLockError'',
                               message = ''failed to acquire gateway lock at '' @ lock_file_path c,
                               cause = Some code\<rparr>), w))
   \<and> timeout_error c lp
        = \<lparr>name = ''GatewayLockError'',
           message = ''gateway already running''
                       @ (case lp of
                            None \<Rightarrow> []
                          | Some pl \<Rightarrow> if pid pl \<noteq> 0 then '' (pid '' @ show_int (pid pl) @ '')''
                                       else [])
                       @ ''; lock timeout after '' @ show_int (timeout c) @ ''ms'',
           cause = None\<rparr>
   \<and> (\<not> lock_disabled opts (case env opts of None \<Rightarrow> process_env w | Some e' \<Rightarrow> e')
        \<and> mkdir_fault w = Some f \<longrightarrow>
        acquireGatewayLock rt opts w = (Inl (Fs_error (Io f)), w))
   \<and> (files w (lock_file_path c) \<noteq> None \<and> rm_fault w = Some f
        \<and> (lock_owner_status w (readLockPayload w (lock_file_path c)) (plat c) = Dead
            \<or> (lock_owner_status w (readLockPayload w (lock_file_path c)) (plat c) = Unknown
                \<and> lock_stale rt w (lock_file_path c) (readLockPayload w (lock_file_path c))
                      (staleThreshold c))) \<longrightarrow>
        acquire_catch rt c EEXIST w = (Threw (Fs_error (Io f)), w))
   \<and> (c = resolve_settings rt opts (case env opts of None \<Rightarrow> process_env w | Some e' \<Rightarrow> e') w
        \<and> acquireGatewayLock rt opts w = (Inl err, w') \<longrightarrow>
        (\<exists>code'. code' \<noteq> EEXIST
            \<and> err = Lock_error \<lparr>name = ''GatewayLockError'',
                                 message = ''failed to acquire gateway lock at '' @ lock_file_path c,
                                 cause = Some code'\<rparr>)
        \<or> (\<exists>f'. (mkdir_fault w = Some f' \<or> rm_fault w = Some f') \<and> err = Fs_error (Io f'))
        \<or> (\<not> Date_now w' - Date_now w < timeout c
            \<and> ((w' = w \<and> err = Lock_error (timeout_error c None))
                \<or> (clock w < clock w'
                    \<and> err = Lock_error (timeout_error c (readLockPayload w' (lock_file_path c)))))))"
proof -
  have a: "code \<noteq> EEXIST \<longrightarrow>
      acquire_catch rt c code w
        = (Threw (Lock_error \<lparr>name = ''GatewayLockError'',
                               message = ''failed to acquire gateway lock at '' @ lock_file_path c,
                               cause = Some code\<rparr>), w)"
    by (simp add: acquire_catch_def new_GatewayLockError_def)
  have b: "timeout_error c lp
        = \<lparr>name = ''GatewayLockError'',
           message = ''gateway already running''
                       @ (case lp of
                            None \<Rightarrow> []
                          | Some pl \<Rightarrow> if pid pl \<noteq> 0 then '' (pid '' @ show_int (pid pl) @ '')''
                                       else [])
                       @ ''; lock timeout after '' @ show_int (timeout c) @ ''ms'',
           cause = None\<rparr>"
    by (simp add: timeout_error_def new_GatewayLockError_def Let_def)
  have m: "\<not> lock_disabled opts (case env opts of None \<Rightarrow> process_env w | Some e' \<Rightarrow> e')
        \<and> mkdir_fault w = Some f \<longrightarrow>
        acquireGatewayLock rt opts w = (Inl (Fs_error (Io f)), w)"
    by (simp add: acquireGatewayLock_def Let_def fs_mkdir_recursive_def)
  have r: "files w (lock_file_path c) \<noteq> None \<and> rm_fault w = Some f
        \<and> (lock_owner_status w (readLockPayload w (lock_file_path c)) (plat c) = Dead
            \<or> (lock_owner_status w (readLockPayload w (lock_file_path c)) (plat c) = Unknown
                \<and> lock_stale rt w (lock_file_path c) (readLockPayload w (lock_file_path c))
                      (staleThreshold c))) \<longrightarrow>
        acquire_catch rt c EEXIST w = (Threw (Fs_error (Io f)), w)"
  proof (intro impI, elim conjE)
    assume ex: "files w (lock_file_path c) \<noteq> None" and rf: "rm_fault w = Some f"
      and st: "lock_owner_status w (readLockPayload w (lock_file_path c)) (plat c) = Dead
            \<or> (lock_owner_status w (readLockPayload w (lock_file_path c)) (plat c) = Unknown
                \<and> lock_stale rt w (lock_file_path c) (readLockPayload w (lock_file_path c))
                      (staleThreshold c))"
    have rm: "fs_rm w (lock_file_path c) True = Inl (Io f)"
      by (rule fs_rm_force_refused[OF ex rf])
    from st have "on_contention rt c (readLockPayload w (lock_file_path c))
             (lock_owner_status w (readLockPayload w (lock_file_path c)) (plat c)) w
             = fs_rm w (lock_file_path c) True"
      by (auto simp: on_contention_def dest: lock_owner_status_Dead_pid)
    then show "acquire_catch rt c EEXIST w = (Threw (Fs_error (Io f)), w)"
      by (simp add: acquire_catch_def Let_def rm)
  qed
  have d: "(\<exists>code'. code' \<noteq> EEXIST
            \<and> err = Lock_error \<lparr>name = ''GatewayLockError'',
                                 message = ''failed to acquire gateway lock at '' @ lock_file_path c,
                                 cause = Some code'\<rparr>)
        \<or> (\<exists>f'. (mkdir_fault w = Some f' \<or> rm_fault w = Some f') \<and> err = Fs_error (Io f'))
        \<or> (\<not> Date_now w' - Date_now w < timeout c
            \<and> ((w' = w \<and> err = Lock_error (timeout_error c None))
                \<or> (clock w < clock w'
                    \<and> err = Lock_error (timeout_error c (readLockPayload w' (lock_file_path c))))))"
    if c: "c = resolve_settings rt opts (case env opts of None \<Rightarrow> process_env w | Some e' \<Rightarrow> e') w"
      and run: "acquireGatewayLock rt opts w = (Inl err, w')"
  proof (cases "mkdir_fault w")
    case (Some f')
    with run have "err = Fs_error (Io f')"
      unfolding acquireGatewayLock_def Let_def c[symmetric]
      by (auto simp: fs_mkdir_recursive_def split: if_splits)
    with Some show ?thesis by blast
  next
    case None
    then have mk: "fs_mkdir_recursive w = Inr w" by (simp add: fs_mkdir_recursive_def)
    from run have "acquire_loop rt c (Date_now w) None w = (Inl err, w')"
      unfolding acquireGatewayLock_def Let_def c[symmetric]
      by (auto simp: mk split: if_splits prod.splits sum.splits)
    from acquire_loop_errors[OF this] show ?thesis
      by (auto simp: new_GatewayLockError_def)
  qed
  from a b m r d show ?thesis by blast
qed

text \<open>
  The theorem at \<open>w_full\<close>, where the creation fails with \<^verbatim>\<open>ENOSPC\<close>; at \<open>w0\<close>,
  where the owner is alive and fresh and acquire times out after two hundred
  milliseconds; at \<open>w_nodir\<close>, where the lock directory cannot be made; and at
  \<open>w_pinned\<close>, where the owner is dead and the removal of its lock file is refused.
\<close>

theorem acquire_errors_one_type_witness:
  "Io ENOSPC \<noteq> EEXIST
   \<and> acquire_catch rt0 c0 (Io ENOSPC) w_full
        = (Threw (Lock_error \<lparr>name = ''GatewayLockError'',
              message = ''failed to acquire gateway lock at /tmp/openclaw/gateway.0a1b2c3d.lock'',
              cause = Some (Io ENOSPC)\<rparr>), w_full)
   \<and> fst (acquireGatewayLock rt0 opts0 w0)
        = Inl (Lock_error \<lparr>name = ''GatewayLockError'',
              message = ''gateway already running (pid 4242); lock timeout after 200ms'',
              cause = None\<rparr>)
   \<and> \<not> Date_now (snd (acquireGatewayLock rt0 opts0 w0)) - Date_now w0 < 200
   \<and> readLockPayload (snd (acquireGatewayLock rt0 opts0 w0)) path0 = readLockPayload w0 path0
   \<and> mkdir_fault w_nodir = Some EACCES
   \<and> acquireGatewayLock rt0 opts0 w_nodir = (Inl (Fs_error (Io EACCES)), w_nodir)
   \<and> files w_pinned path0 \<noteq> None
   \<and> rm_fault w_pinned = Some EPERM
   \<and> lock_owner_status w_pinned (readLockPayload w_pinned (lock_file_path c0)) (plat c0) = Dead
   \<and> acquire_catch rt0 c0 EEXIST w_pinned = (Threw (Fs_error (Io EPERM)), w_pinned)"
proof -
  obtain t' where run: "acquireGatewayLock rt0 opts0 w0
      = (Inl (Lock_error (timeout_error c0 (readLockPayload w0 path0))), w0\<lparr>clock := t'\<rparr>)"
    using w0_acquire_times_out by blast
  have en: "env opts0 = None" by (simp add: opts0_def)
  have pw: "w0\<lparr>process_platform := ''linux''\<rparr> = w0" by (simp add: w0_def)
  have c: "c0 = resolve_settings rt0 opts0 (case env opts0 of None \<Rightarrow> process_env w0 | Some e' \<Rightarrow> e') w0"
    using opts0_settings[of w0] by (simp add: pw en)
  have cc: "lock_file_path c0 = path0" "timeout c0 = 200" "plat c0 = ''linux''"
    by (simp_all add: c0_def)
  have p0: "path0 = ''/tmp/openclaw/gateway.0a1b2c3d.lock''" by (simp add: path0_def)
  have nf0: "mkdir_fault w0 = None" "rm_fault w0 = None" by (simp_all add: w0_def)
  note t1 = acquire_errors_one_type[where code = "Io ENOSPC" and rt = rt0 and c = c0
      and w = w_full]
  note t2 = acquire_errors_one_type[where rt = rt0 and c = c0 and w = w0 and opts = opts0
      and err = "Lock_error (timeout_error c0 (readLockPayload w0 path0))"
      and w' = "w0\<lparr>clock := t'\<rparr>"]
  note t3 = acquire_errors_one_type[where rt = rt0 and w = w_nodir and opts = opts0
      and f = EACCES]
  note t4 = acquire_errors_one_type[where rt = rt0 and c = c0 and w = w_pinned and f = EPERM]
  have first: "acquire_catch rt0 c0 (Io ENOSPC) w_full
        = (Threw (Lock_error \<lparr>name = ''GatewayLockError'',
              message = ''failed to acquire gateway lock at /tmp/openclaw/gateway.0a1b2c3d.lock'',
              cause = Some (Io ENOSPC)\<rparr>), w_full)"
    using t1 by (simp add: cc p0)
  have up: "\<not> Date_now (w0\<lparr>clock := t'\<rparr>) - Date_now w0 < 200"
    using t2 c run nf0 by (auto simp: cc w0_timeout_error)
  have rd: "readLockPayload (w0\<lparr>clock := t'\<rparr>) path0 = readLockPayload w0 path0"
    by (rule readLockPayload_cong) simp
  have mf: "mkdir_fault w_nodir = Some EACCES" by (simp add: w_nodir_def)
  have nd: "\<not> lock_disabled opts0 (case env opts0 of None \<Rightarrow> process_env w_nodir | Some e' \<Rightarrow> e')"
    by (simp add: lock_disabled_def opts0_def w_nodir_def w0_def)
  have third: "acquireGatewayLock rt0 opts0 w_nodir = (Inl (Fs_error (Io EACCES)), w_nodir)"
    using t3 mf nd by blast
  have ex: "files w_pinned path0 \<noteq> None" and rf: "rm_fault w_pinned = Some EPERM"
    by (simp_all add: w_pinned_def w_dead_def w0_def)
  have st: "lock_owner_status w_pinned (readLockPayload w_pinned (lock_file_path c0)) (plat c0) = Dead"
    using w_pinned_status by (simp add: cc)
  have fourth: "acquire_catch rt0 c0 EEXIST w_pinned = (Threw (Fs_error (Io EPERM)), w_pinned)"
    using t4 ex rf st by (simp add: cc)
  show ?thesis
    using first up rd mf third ex rf st fourth by (simp add: run w0_timeout_error)
qed

text \<open>
  Claim C6 as stated fails: the timeout of \<open>w0\<close> and the failed creation of
  \<open>w_full\<close> are reported with errors of the same type, both named
  \<^verbatim>\<open>GatewayLockError\<close>.
\<close>

theorem same_error_type_counterexample:
  "fst (acquireGatewayLock rt0 opts0 w0)
     = Inl (Lock_error \<lparr>name = ''GatewayLockError'',
              message = ''gateway already running (pid 4242); lock timeout after 200ms'',
              cause = None\<rparr>)
   \<and> fst (acquireGatewayLock rt0 opts0 w_full)
     = Inl (Lock_error \<lparr>name = ''GatewayLockError'',
              message = ''failed to acquire gateway lock at /tmp/openclaw/gateway.0a1b2c3d.lock'',
              cause = Some (Io ENOSPC)\<rparr>)"
proof -
  obtain t' where run: "acquireGatewayLock rt0 opts0 w0
      = (Inl (Lock_error (timeout_error c0 (readLockPayload w0 path0))), w0\<lparr>clock := t'\<rparr>)"
    using w0_acquire_times_out by blast
  have p0: "path0 = ''/tmp/openclaw/gateway.0a1b2c3d.lock''" by (simp add: path0_def)
  have e1: "fst (acquireGatewayLock rt0 opts0 w0)
     = Inl (Lock_error \<lparr>name = ''GatewayLockError'',
              message = ''gateway already running (pid 4242); lock timeout after 200ms'',
              cause = None\<rparr>)"
    by (simp add: run w0_timeout_error)
  have e2: "fst (acquireGatewayLock rt0 opts0 w_full)
     = Inl (Lock_error \<lparr>name = ''GatewayLockError'',
              message = ''failed to acquire gateway lock at /tmp/openclaw/gateway.0a1b2c3d.lock'',
              cause = Some (Io ENOSPC)\<rparr>)"
    by (simp add: w_full_acquire_fails new_GatewayLockError_def p0)
  from e1 e2 show ?thesis by simp
qed

subsection \<open>C7: stopping an owner that ignores the graceful signal\<close>



subsection \<open>C8: release\<close>

text \<open>
  Claim C8, as amended. \<^verbatim>\<open>release\<close> is idempotent, and it can throw. It closes the
  handle and drops whatever error the close gives, so its outcome does not depend on the
  close; it then force-removes the lock file, where \<^verbatim>\<open>force\<close> turns an absent file into
  success and nothing else: any other failure of the removal is not caught and reaches the
  caller of \<^verbatim>\<open>release\<close>, the handle closed and the lock file still there. \<^verbatim>\<open>release\<close>
  returns normally exactly when the lock file is absent or the file system does not refuse
  the removal; then the lock file is absent afterwards and nothing else of the file system
  has changed. A second call has the outcome of the first and leaves the state the first
  left.
\<close>

theorem release_idempotent:
  "release h (snd (release h w)) = (fst (release h w), snd (release h w))
   \<and> fst (release h (w\<lparr>close_fault := cf\<rparr>)) = fst (release h w)
   \<and> fileHandle h \<notin> set (open_fds (snd (release h w)))
   \<and> (fst (release h w) = Inr ()) = (rm_fault w = None \<or> files w (lockPath h) = None)
   \<and> (fst (release h w) = Inr () \<longrightarrow>
         files (snd (release h w)) = (files w)(lockPath h := None)
         \<and> release h (snd (release h w)) = (Inr (), snd (release h w)))
   \<and> (\<forall>e. rm_fault w = Some e \<and> files w (lockPath h) \<noteq> None \<longrightarrow>
         release h w = (Inl (Io e), snd (handle_close w (fileHandle h)))
         \<and> files (snd (release h w)) = files w)"
proof -
  obtain err w' where hc: "handle_close w (fileHandle h) = (err, w')"
    by (cases "handle_close w (fileHandle h)")
  then have closed: "fileHandle h \<notin> set (open_fds w')" and fw: "files w' = files w"
    and rw: "rm_fault w' = rm_fault w"
    by (auto simp: handle_close_def split: if_splits)
  have hc': "handle_close w' (fileHandle h) = (None, w')"
    using closed by (simp add: handle_close_def)
  have r: "release h w = (case fs_rm w' (lockPath h) True of
                            Inl e \<Rightarrow> (Inl e, w') | Inr w2 \<Rightarrow> (Inr (), w2))"
    by (simp add: release_def hc)
  have r': "release h w' = (case fs_rm w' (lockPath h) True of
                            Inl e \<Rightarrow> (Inl e, w') | Inr w2 \<Rightarrow> (Inr (), w2))"
    by (simp add: release_def hc')
  show ?thesis
  proof (cases "fs_rm w' (lockPath h) True")
    case (Inl e)
    from fs_rm_force_Inl[OF Inl]
    obtain f where f: "rm_fault w' = Some f" "e = Io f" "files w' (lockPath h) \<noteq> None"
      by blast
    have rel: "release h w = (Inl (Io f), w')" by (simp add: r Inl f(2))
    have rel': "release h w' = (Inl (Io f), w')" by (simp add: r' Inl f(2))
    have cfi: "fst (release h (w\<lparr>close_fault := cf\<rparr>)) = Inl (Io f)"
      using f rw fw
      by (auto simp: release_def handle_close_def fs_rm_def split: option.splits)
    show ?thesis
      using rel rel' cfi closed f rw fw hc by auto
  next
    case (Inr w2)
    from fs_rm_force_Inr[OF Inr]
    have w2: "w2 = (if files w' (lockPath h) = None then w'
                    else w'\<lparr>files := (files w')(lockPath h := None)\<rparr>)"
      and ok: "files w' (lockPath h) = None \<or> rm_fault w' = None"
      by simp_all
    have rel: "release h w = (Inr (), w2)" by (simp add: r Inr)
    have gone: "files w2 (lockPath h) = None" by (simp add: w2)
    have f2: "files w2 = (files w)(lockPath h := None)"
      using fw by (auto simp: w2)
    have c2: "fileHandle h \<notin> set (open_fds w2)" using closed by (simp add: w2)
    have hc2: "handle_close w2 (fileHandle h) = (None, w2)"
      using c2 by (simp add: handle_close_def)
    have rel2: "release h w2 = (Inr (), w2)"
      by (simp add: release_def hc2 fs_rm_force_absent[OF gone])
    have cfi: "fst (release h (w\<lparr>close_fault := cf\<rparr>)) = Inr ()"
      using ok rw fw
      by (auto simp: release_def handle_close_def fs_rm_def split: option.splits)
    show ?thesis
      using rel rel2 cfi c2 f2 ok rw fw by auto
  qed
qed

text \<open>
  The theorem at the handle \<open>h0\<close> in the world where its descriptor is open and the
  lock file is there: the first release closes and removes, the second changes nothing;
  and the same when the close fails.
\<close>

theorem release_idempotent_witness:
  "rm_fault (w0\<lparr>open_fds := [20]\<rparr>) = None
   \<and> release h0 (w0\<lparr>open_fds := [20]\<rparr>)
     = (Inr (), w0\<lparr>open_fds := [], files := (files w0)(path0 := None)\<rparr>)
   \<and> release h0 (w0\<lparr>open_fds := [], files := (files w0)(path0 := None)\<rparr>)
     = (Inr (), w0\<lparr>open_fds := [], files := (files w0)(path0 := None)\<rparr>)
   \<and> fst (release h0 (w0\<lparr>open_fds := [20], close_fault := Some EIO\<rparr>)) = Inr ()"
proof -
  let ?w = "w0\<lparr>open_fds := [20]\<rparr>"
  let ?w1 = "w0\<lparr>open_fds := [], files := (files w0)(path0 := None)\<rparr>"
  have f: "files w0 path0 \<noteq> None" and nf: "rm_fault ?w = None" by (simp_all add: w0_def)
  have hc: "handle_close ?w 20 = (None, w0\<lparr>open_fds := []\<rparr>)"
    by (simp add: handle_close_def w0_def)
  have nf0: "rm_fault w0 = None" by (simp add: w0_def)
  have rm: "fs_rm (w0\<lparr>open_fds := []\<rparr>) path0 True = Inr ?w1"
  proof -
    have "rm_fault (w0\<lparr>open_fds := []\<rparr>) = None" by (simp add: nf0)
    from fs_rm_force_ok[OF this, of path0] f show ?thesis by simp
  qed
  have r: "release h0 ?w = (Inr (), ?w1)"
    by (simp add: release_def h0_def hc rm)
  note t = release_idempotent[where h = h0 and w = ?w and cf = "Some EIO"]
  have ok: "fst (release h0 ?w) = Inr ()" by (simp add: r)
  have again: "release h0 (snd (release h0 ?w)) = (Inr (), snd (release h0 ?w))"
    using t ok by blast
  have third: "fst (release h0 (?w\<lparr>close_fault := Some EIO\<rparr>)) = Inr ()"
    using t ok by simp
  show ?thesis
    using nf r again third by simp
qed

text \<open>
  Claim C8 as stated fails: in \<open>w_pinned\<close> the removal of the lock file is refused, and
  \<^verbatim>\<open>release\<close> throws the refusal; the handle is closed and the lock file is still
  there.
\<close>

theorem release_throws_counterexample:
  "release h0 (w_pinned\<lparr>open_fds := [20]\<rparr>) = (Inl (Io EPERM), w_pinned\<lparr>open_fds := []\<rparr>)
   \<and> files (w_pinned\<lparr>open_fds := []\<rparr>) path0
       = Some \<lparr>parsed = Some payload0, mtimeMs = 1767225600000, readable = True\<rparr>"
proof -
  have hc: "handle_close (w_pinned\<lparr>open_fds := [20]\<rparr>) 20 = (None, w_pinned\<lparr>open_fds := []\<rparr>)"
    by (simp add: handle_close_def w_pinned_def w_dead_def w0_def)
  have fp: "files w_pinned path0
       = Some \<lparr>parsed = Some payload0, mtimeMs = 1767225600000, readable = True\<rparr>"
    by (simp add: w_pinned_def w_dead_def w0_def)
  have f: "files (w_pinned\<lparr>open_fds := []\<rparr>) path0
       = Some \<lparr>parsed = Some payload0, mtimeMs = 1767225600000, readable = True\<rparr>"
    by (simp add: fp)
  have rfp: "rm_fault w_pinned = Some EPERM"
    by (simp add: w_pinned_def)
  have rm: "fs_rm (w_pinned\<lparr>open_fds := []\<rparr>) path0 True = Inl (Io EPERM)"
    by (rule fs_rm_force_refused) (simp_all add: fp rfp)
  have "release h0 (w_pinned\<lparr>open_fds := [20]\<rparr>) = (Inl (Io EPERM), w_pinned\<lparr>open_fds := []\<rparr>)"
    by (simp add: release_def h0_def hc rm)
  with f show ?thesis by simp
qed

subsection \<open>C9: a lock file that cannot be understood\<close>

text \<open>
  Claim C9. \<^verbatim>\<open>readLockPayload\<close> gives \<^verbatim>\<open>null\<close> when the lock file is absent, when it
  cannot be read, when its text is not JSON, and when the parsed value lacks a numeric
  \<^verbatim>\<open>pid\<close>, a string \<^verbatim>\<open>createdAt\<close> or a string \<^verbatim>\<open>configPath\<close>; a \<^verbatim>\<open>startTime\<close>
  that is not a number is dropped and the payload is still returned. So
  \<^verbatim>\<open>tryStopForegroundGateway\<close> on a lock file that exists but reads as \<^verbatim>\<open>null\<close>
  returns \<^verbatim>\<open>no-lock\<close> without a pid and leaves the world as it was: no signal is sent
  and the file stays.
\<close>

theorem malformed_lock_reads_null:
  "(files w path = None \<longrightarrow> readLockPayload w path = None)
   \<and> (fs_readFile w path = Inl e \<longrightarrow> readLockPayload w path = None)
   \<and> (fs_readFile w path = Inr None \<longrightarrow> readLockPayload w path = None)
   \<and> (fs_readFile w path = Inr (Some j)
        \<and> (typeof_number (js_prop j ''pid'') = None
            \<or> typeof_string (js_prop j ''createdAt'') = None
            \<or> typeof_string (js_prop j ''configPath'') = None)
        \<longrightarrow> readLockPayload w path = None)
   \<and> (fs_readFile w path = Inr (Some j)
        \<and> typeof_number (js_prop j ''pid'') = Some n
        \<and> typeof_string (js_prop j ''createdAt'') = Some ca
        \<and> typeof_string (js_prop j ''configPath'') = Some cp
        \<and> typeof_number (js_prop j ''startTime'') = None
        \<longrightarrow> readLockPayload w path
              = Some \<lparr>pid = n, createdAt = ca, configPath = cp, startTime = None\<rparr>)
   \<and> (files w (fst (resolveGatewayLockPath rt
                      (case opts_env of None \<Rightarrow> process_env w | Some e' \<Rightarrow> e'))) = Some f
        \<and> readLockPayload w (fst (resolveGatewayLockPath rt
                      (case opts_env of None \<Rightarrow> process_env w | Some e' \<Rightarrow> e'))) = None
        \<longrightarrow> tryStopForegroundGateway rt opts_env opts_platform w = (Inr (NoLock, None), w))"
proof -
  have a: "files w path = None \<longrightarrow> readLockPayload w path = None"
    by (simp add: readLockPayload_def fs_readFile_def)
  have b: "fs_readFile w path = Inl e \<longrightarrow> readLockPayload w path = None"
    by (simp add: readLockPayload_def)
  have c: "fs_readFile w path = Inr None \<longrightarrow> readLockPayload w path = None"
    by (simp add: readLockPayload_def)
  have d: "fs_readFile w path = Inr (Some j)
        \<and> (typeof_number (js_prop j ''pid'') = None
            \<or> typeof_string (js_prop j ''createdAt'') = None
            \<or> typeof_string (js_prop j ''configPath'') = None)
        \<longrightarrow> readLockPayload w path = None"
    by (auto simp: readLockPayload_def split: option.splits)
  have e: "fs_readFile w path = Inr (Some j)
        \<and> typeof_number (js_prop j ''pid'') = Some n
        \<and> typeof_string (js_prop j ''createdAt'') = Some ca
        \<and> typeof_string (js_prop j ''configPath'') = Some cp
        \<and> typeof_number (js_prop j ''startTime'') = None
        \<longrightarrow> readLockPayload w path
              = Some \<lparr>pid = n, createdAt = ca, configPath = cp, startTime = None\<rparr>"
    by (auto simp: readLockPayload_def js_prop_def)
  have f: "files w (fst (resolveGatewayLockPath rt
                      (case opts_env of None \<Rightarrow> process_env w | Some e' \<Rightarrow> e'))) = Some f
        \<and> readLockPayload w (fst (resolveGatewayLockPath rt
                      (case opts_env of None \<Rightarrow> process_env w | Some e' \<Rightarrow> e'))) = None
        \<longrightarrow> tryStopForegroundGateway rt opts_env opts_platform w = (Inr (NoLock, None), w)"
    by (simp add: tryStopForegroundGateway_def Let_def)
  from a b c d e f show ?thesis by blast
qed

text \<open>
  The theorem at \<open>w_gone\<close> (no file), at \<open>w_malformed\<close> (the \<^verbatim>\<open>pid\<close> is a string: the
  payload is \<^verbatim>\<open>null\<close> and the stop changes nothing), at a lock file that may not be
  read, at one whose text is not JSON, and at one whose \<^verbatim>\<open>startTime\<close> is a string.
\<close>

theorem malformed_lock_reads_null_witness:
  "files w_gone path0 = None
   \<and> readLockPayload w_gone path0 = None
   \<and> files w_malformed path0
        = Some \<lparr>parsed = Some (JObj [(''pid'', JStr ''4242''),
                                     (''createdAt'', JStr ''2026-01-01T00:00:00.000Z''),
                                     (''configPath'', JStr ''/home/u/.openclaw/openclaw.json'')]),
                mtimeMs = 1767225600000, readable = True\<rparr>
   \<and> readLockPayload w_malformed path0 = None
   \<and> tryStopForegroundGateway rt0 None None w_malformed = (Inr (NoLock, None), w_malformed)
   \<and> readLockPayload
         (w0\<lparr>files := [path0 \<mapsto> \<lparr>parsed = Some payload0, mtimeMs = 1767225600000,
                                  readable = False\<rparr>]\<rparr>) path0 = None
   \<and> readLockPayload
         (w0\<lparr>files := [path0 \<mapsto> \<lparr>parsed = None, mtimeMs = 1767225600000,
                                  readable = True\<rparr>]\<rparr>) path0 = None
   \<and> readLockPayload
         (w0\<lparr>files := [path0 \<mapsto> \<lparr>parsed = Some (JObj [(''pid'', JNum 4242),
                                       (''createdAt'', JStr ''2026-01-01T00:00:00.000Z''),
                                       (''configPath'', JStr ''/home/u/.openclaw/openclaw.json''),
                                       (''startTime'', JStr ''987654'')]),
                                  mtimeMs = 1767225600000, readable = True\<rparr>]\<rparr>) path0
        = Some \<lparr>pid = 4242, createdAt = ''2026-01-01T00:00:00.000Z'',
                configPath = ''/home/u/.openclaw/openclaw.json'', startTime = None\<rparr>"
proof -
  let ?jm = "JObj [(''pid'', JStr ''4242''),
                   (''createdAt'', JStr ''2026-01-01T00:00:00.000Z''),
                   (''configPath'', JStr ''/home/u/.openclaw/openclaw.json'')]"
  let ?fm = "\<lparr>parsed = Some ?jm, mtimeMs = 1767225600000, readable = True\<rparr>"
  let ?js = "JObj [(''pid'', JNum 4242),
                   (''createdAt'', JStr ''2026-01-01T00:00:00.000Z''),
                   (''configPath'', JStr ''/home/u/.openclaw/openclaw.json''),
                   (''startTime'', JStr ''987654'')]"
  let ?ws = "w0\<lparr>files := [path0 \<mapsto> \<lparr>parsed = Some ?js, mtimeMs = 1767225600000, readable = True\<rparr>]\<rparr>"
  have g: "files w_gone path0 = None" by (simp add: w_gone_def)
  have m: "files w_malformed path0 = Some ?fm" by (simp add: w_malformed_def)
  have rm: "fs_readFile w_malformed path0 = Inr (Some ?jm)"
    by (simp add: fs_readFile_def m)
  have pm: "typeof_number (js_prop ?jm ''pid'') = None" by (simp add: js_prop_def)
  have lp: "fst (resolveGatewayLockPath rt0 (process_env w_malformed)) = path0"
    by (simp add: rt0_def path0_def)
  have rs: "fs_readFile ?ws path0 = Inr (Some ?js)" by (simp add: fs_readFile_def)
  have ps: "typeof_number (js_prop ?js ''pid'') = Some 4242"
    "typeof_string (js_prop ?js ''createdAt'') = Some ''2026-01-01T00:00:00.000Z''"
    "typeof_string (js_prop ?js ''configPath'') = Some ''/home/u/.openclaw/openclaw.json''"
    "typeof_number (js_prop ?js ''startTime'') = None"
    by (simp_all add: js_prop_def)
  let ?wu = "w0\<lparr>files := [path0 \<mapsto> \<lparr>parsed = Some payload0, mtimeMs = 1767225600000,
                                  readable = False\<rparr>]\<rparr>"
  let ?wi = "w0\<lparr>files := [path0 \<mapsto> \<lparr>parsed = None, mtimeMs = 1767225600000,
                                  readable = True\<rparr>]\<rparr>"
  have ru: "fs_readFile ?wu path0 = Inl (Io EACCES)" by (simp add: fs_readFile_def)
  have ri: "fs_readFile ?wi path0 = Inr None" by (simp add: fs_readFile_def)
  have r5: "readLockPayload ?wu path0 = None"
    using malformed_lock_reads_null[of ?wu path0 "Io EACCES"] ru by blast
  have r6: "readLockPayload ?wi path0 = None"
    using malformed_lock_reads_null[of ?wi path0] ri by blast
  note t1 = malformed_lock_reads_null[of w_gone path0]
  note t2 = malformed_lock_reads_null[of w_malformed path0 _ ?jm _ _ _ rt0 None ?fm None]
  note t3 = malformed_lock_reads_null[of ?ws path0 _ ?js 4242 "''2026-01-01T00:00:00.000Z''"
              "''/home/u/.openclaw/openclaw.json''"]
  have r1: "readLockPayload w_gone path0 = None" using t1 g by blast
  have r2: "readLockPayload w_malformed path0 = None" using t2 rm pm by blast
  have r3: "tryStopForegroundGateway rt0 None None w_malformed = (Inr (NoLock, None), w_malformed)"
    using t2 m r2 lp by simp
  have r4: "readLockPayload ?ws path0
        = Some \<lparr>pid = 4242, createdAt = ''2026-01-01T00:00:00.000Z'',
                configPath = ''/home/u/.openclaw/openclaw.json'', startTime = None\<rparr>"
    using t3 rs ps by blast
  show ?thesis using g m r1 r2 r3 r4 r5 r6 by simp
qed

subsection \<open>C10: the modification time cannot be read\<close>

text \<open>
  Claim C10. When the staleness of a lock is computed (the owner status is not
  \<open>Alive\<close>) and reading the modification time of the lock file fails, whether the file
  is gone or is there and cannot be examined, the lock counts as stale: acquire
  force-removes the lock path and, the removal carried out, goes round again with the
  clock unmoved and the lock file absent; a refused removal is thrown as it is. So it is
  in one pass of acquire's loop over a lock file that is there and cannot be examined: the
  file is removed and the pass ends in a retry, without a sleep.
\<close>

theorem stat_failure_counts_as_stale:
  assumes "ownerStatus \<noteq> Alive"
    and "fs_stat w (lock_file_path c) = Inl e"
  shows "lock_stale rt w (lock_file_path c) lp (staleThreshold c)
         \<and> on_contention rt c lp ownerStatus w = fs_rm w (lock_file_path c) True
         \<and> (rm_fault w = None \<or> files w (lock_file_path c) = None \<longrightarrow>
              on_contention rt c lp ownerStatus w
                = Inr (w\<lparr>files := (files w)(lock_file_path c := None)\<rparr>))
         \<and> (\<forall>f. rm_fault w = Some f \<and> files w (lock_file_path c) \<noteq> None \<longrightarrow>
              on_contention rt c lp ownerStatus w = Inl (Io f))
         \<and> (files w (lock_file_path c) \<noteq> None
              \<and> lp = readLockPayload w (lock_file_path c)
              \<and> ownerStatus = lock_owner_status w lp (plat c) \<longrightarrow>
              acquire_attempt rt c w
                = (case rm_fault w of
                     None \<Rightarrow> (Retry lp, w\<lparr>files := (files w)(lock_file_path c := None)\<rparr>)
                   | Some f \<Rightarrow> (Threw (Fs_error (Io f)), w)))"
proof -
  let ?path = "lock_file_path c"
  have st: "lock_stale rt w ?path lp (staleThreshold c)"
    using assms(2) by (simp add: lock_stale_def)
  have oc: "on_contention rt c lp ownerStatus w = fs_rm w ?path True"
    using assms(1) st by (simp add: on_contention_def)
  have idem: "files w ?path = None \<Longrightarrow> w\<lparr>files := (files w)(?path := None)\<rparr> = w"
    by (simp add: fun_upd_idem)
  have ok: "rm_fault w = None \<or> files w ?path = None \<longrightarrow>
              on_contention rt c lp ownerStatus w = Inr (w\<lparr>files := (files w)(?path := None)\<rparr>)"
    using idem by (auto simp: oc fs_rm_def split: option.splits)
  have refused: "\<forall>f. rm_fault w = Some f \<and> files w ?path \<noteq> None \<longrightarrow>
              on_contention rt c lp ownerStatus w = Inl (Io f)"
    by (auto simp: oc fs_rm_force_refused)
  have pass: "files w ?path \<noteq> None \<and> lp = readLockPayload w ?path
              \<and> ownerStatus = lock_owner_status w lp (plat c) \<longrightarrow>
              acquire_attempt rt c w
                = (case rm_fault w of
                     None \<Rightarrow> (Retry lp, w\<lparr>files := (files w)(?path := None)\<rparr>)
                   | Some f \<Rightarrow> (Threw (Fs_error (Io f)), w))"
  proof (intro impI, elim conjE)
    assume ex: "files w ?path \<noteq> None" and l: "lp = readLockPayload w ?path"
      and o: "ownerStatus = lock_owner_status w lp (plat c)"
    have op: "fs_open_wx w ?path = Inl EEXIST" using ex by (simp add: fs_open_wx_def)
    have "acquire_attempt rt c w = acquire_catch rt c EEXIST w"
      by (simp add: acquire_attempt_def op)
    also have "\<dots> = (case fs_rm w ?path True of
                       Inl e \<Rightarrow> (Threw (Fs_error e), w) | Inr w' \<Rightarrow> (Retry lp, w'))"
      using oc by (simp add: acquire_catch_def Let_def l[symmetric] o[symmetric])
    also have "\<dots> = (case rm_fault w of
                     None \<Rightarrow> (Retry lp, w\<lparr>files := (files w)(?path := None)\<rparr>)
                   | Some f \<Rightarrow> (Threw (Fs_error (Io f)), w))"
      using ex by (auto simp: fs_rm_def split: option.splits)
    finally show "acquire_attempt rt c w
                = (case rm_fault w of
                     None \<Rightarrow> (Retry lp, w\<lparr>files := (files w)(?path := None)\<rparr>)
                   | Some f \<Rightarrow> (Threw (Fs_error (Io f)), w))" .
  qed
  from st oc ok refused pass show ?thesis by blast
qed

text \<open>
  The theorem at \<open>w_nostat\<close>, where the lock file is there and its examination fails with
  \<^verbatim>\<open>EIO\<close>, the owner's status is unknown and the payload is ten seconds old, so that the
  fallback is reached: the pass removes the file and the clock does not move. In
  \<open>w_unreadable\<close>, which differs from \<open>w_nostat\<close> in the examination alone, the lock is not
  stale. And at \<open>w_gone\<close>, with the payload that was read before the file vanished.
\<close>

theorem stat_failure_counts_as_stale_witness:
  "fs_stat w_nostat (lock_file_path c0) = Inl (Io EIO)
   \<and> files w_nostat path0
       = Some \<lparr>parsed = Some payload0, mtimeMs = 1767225600000, readable = True\<rparr>
   \<and> lock_owner_status w_nostat (readLockPayload w_nostat path0) ''linux'' = Unknown
   \<and> \<not> createdAt_stale rt0 w_nostat (readLockPayload w_nostat path0) (staleThreshold c0)
   \<and> lock_stale rt0 w_nostat path0 (readLockPayload w_nostat path0) (staleThreshold c0)
   \<and> \<not> lock_stale rt0 w_unreadable path0 (readLockPayload w_unreadable path0) (staleThreshold c0)
   \<and> acquire_attempt rt0 c0 w_nostat
       = (Retry (readLockPayload w_nostat path0), w_nostat\<lparr>files := (files w_nostat)(path0 := None)\<rparr>)
   \<and> files (snd (acquire_attempt rt0 c0 w_nostat)) path0 = None
   \<and> clock (snd (acquire_attempt rt0 c0 w_nostat)) = clock w_nostat
   \<and> fs_stat w_gone (lock_file_path c0) = Inl ENOENT
   \<and> on_contention rt0 c0 (readLockPayload w_unreadable path0) Unknown w_gone = Inr w_gone"
proof -
  have cc: "lock_file_path c0 = path0" "staleThreshold c0 = 30000" "plat c0 = ''linux''"
    by (simp_all add: c0_def)
  have fl: "files w_nostat path0
       = Some \<lparr>parsed = Some payload0, mtimeMs = 1767225600000, readable = True\<rparr>"
    by (simp add: w_nostat_def w_unreadable_def w0_def)
  have sf: "stat_fault w_nostat = Some EIO" and nf: "rm_fault w_nostat = None"
    by (simp_all add: w_nostat_def w_unreadable_def w0_def)
  have s: "fs_stat w_nostat path0 = Inl (Io EIO)"
    by (simp add: fs_stat_def fl sf)
  have ck: "clock w_nostat = 1767225610000"
    by (simp add: w_nostat_def w_unreadable_def w0_def)
  have stt: "lock_owner_status w_nostat (readLockPayload w_nostat path0) ''linux'' = Unknown"
    unfolding payload0_read_worlds(10)
    by (rule unreadable_status) (simp add: w_nostat_def w_unreadable_def w0_def)
  have cs: "\<not> createdAt_stale rt0 w_nostat (readLockPayload w_nostat path0) 30000"
    unfolding payload0_read_worlds(10) payload0_read_worlds(1)
    by (simp add: createdAt_stale_def rt0_def iso_table_def Date_now_def ck)
  have un: "Unknown \<noteq> Alive" by simp
  note t = stat_failure_counts_as_stale[where ownerStatus = Unknown and w = w_nostat and c = c0
      and e = "Io EIO" and rt = rt0 and lp = "readLockPayload w_nostat path0"]
  have t1: "lock_stale rt0 w_nostat path0 (readLockPayload w_nostat path0) 30000"
    using t un s by (simp add: cc)
  have t2: "acquire_attempt rt0 c0 w_nostat
       = (Retry (readLockPayload w_nostat path0), w_nostat\<lparr>files := (files w_nostat)(path0 := None)\<rparr>)"
    using t un s fl stt nf by (simp add: cc)
  have g: "fs_stat w_gone path0 = Inl ENOENT"
    by (simp add: fs_stat_def w_gone_def)
  have fg: "files w_gone path0 = None" by (simp add: w_gone_def)
  note u = stat_failure_counts_as_stale[where ownerStatus = Unknown and w = w_gone and c = c0
      and e = ENOENT and rt = rt0 and lp = "readLockPayload w_unreadable path0"]
  have "on_contention rt0 c0 (readLockPayload w_unreadable path0) Unknown w_gone
          = fs_rm w_gone path0 True"
    using u un g by (simp add: cc)
  then have t3: "on_contention rt0 c0 (readLockPayload w_unreadable path0) Unknown w_gone = Inr w_gone"
    by (simp add: fs_rm_force_absent[OF fg])
  show ?thesis
    using s fl stt cs t1 t2 g t3 w_unreadable_facts(2) by (simp add: cc)
qed

end
